theory Spec2Isabelle
  imports Complex_Main "HOL-Library.Char_ord" "HOL-Library.List_Lexorder"
begin

section \<open>Inventory allocation and capacity accounting of the office server\<close>

text \<open>
  The server is one Express application over a Prisma client on PostgreSQL. This theory
  embeds the inventory routes (floor inventory, zone inventory, zone objects): every
  route handler is a function from the database state and the request's parameters to
  the new database state and the HTTP response.

  Conventions of the embedding:
  \<^item> A table is the list of its rows in insertion order; a \<open>SERIAL\<close> primary key is
    drawn from a sequence counter kept in the state. A value that a failed insert has
    drawn from a sequence is not given back by the rollback.
  \<^item> An \<open>INTEGER\<close> column holds 32 bits (\<open>int4\<close>). A Prisma call that is given an
    \<open>Int\<close> argument outside that range, or whose arithmetic leaves it, raises an error
    that has neither a \<open>status\<close> nor a code the handlers test. The one exception is the
    floor id filter of \<open>findMany\<close> in the usage route, whose range is not modelled.
  \<^item> \<open>handle\<close> and \<open>serve\<close> run requests one after the other. A callback given to
    \<open>prisma.$transaction\<close> is a function from the state to an exception or a result
    with the new state; when it throws, the tables are those from before. The server
    opens its transactions with no isolation level and no lock, so two transactions can
    overlap; \<open>post_zone_inventory_overlapped\<close> is such a run of two allocate requests.
    A Prisma call outside \<open>$transaction\<close> commits on its own.
  \<^item> A statement that fails in the database aborts its transaction: a later statement of
    the same transaction fails too.
  \<^item> The constraints of the migrations are part of the insert and delete operations: an
    insert is refused when the id or, for a zone inventory, the pair of zone and floor
    inventory is taken; a zone inventory needs its floor inventory and its zone, an
    object needs its zone inventory and its zone; a delete cascades from
    \<open>FloorInventory\<close> to \<open>ZoneInventory\<close> to \<open>ZoneObject\<close>. Of the \<open>Zone\<close> table only
    the ids are kept; the \<open>Floor\<close> table is outside the model.
  \<^item> Where a handler lets a finite number that is not an integer reach an \<open>Int\<close>
    argument, the embedding lets the Prisma call raise.
  \<^item> Authentication (\<open>authRequired\<close>) is outside the model.
\<close>

subsection \<open>JavaScript values of a request\<close>

text \<open>
  A path parameter after \<open>Number(...)\<close> or a field of the JSON body. \<open>JNum r\<close> is a finite
  number, \<open>JNonFinite\<close> is \<open>NaN\<close> or an infinity, \<open>JNull\<close> is \<open>null\<close> or \<open>undefined\<close>,
  \<open>JOther\<close> is any value that is not a number (a string, a boolean, an object).
\<close>

datatype jsval = JNum rat | JNonFinite | JNull | JOther

abbreviation JInt :: "int \<Rightarrow> jsval" where
  "JInt n \<equiv> JNum (of_int n)"

definition Number_isInteger :: "jsval \<Rightarrow> bool" where
  "Number_isInteger v = (case v of JNum r \<Rightarrow> of_int \<lfloor>r\<rfloor> = r | _ \<Rightarrow> False)"

definition Number_isFinite :: "jsval \<Rightarrow> bool" where
  "Number_isFinite v = (case v of JNum r \<Rightarrow> True | _ \<Rightarrow> False)"

definition typeof_number :: "jsval \<Rightarrow> bool" where
  "typeof_number v = (case v of JNum r \<Rightarrow> True | JNonFinite \<Rightarrow> True | _ \<Rightarrow> False)"

text \<open>The integer a value stands for; read only after \<open>Number_isInteger\<close> has passed.\<close>

definition int_of :: "jsval \<Rightarrow> int" where
  "int_of v = (case v of JNum r \<Rightarrow> \<lfloor>r\<rfloor> | _ \<Rightarrow> 0)"

text \<open>The range of an \<open>INTEGER\<close> column and of an \<open>Int\<close> argument.\<close>

definition int4 :: "int \<Rightarrow> bool" where
  "int4 v = (- 2147483648 \<le> v \<and> v \<le> 2147483647)"

subsection \<open>Tables\<close>

record catalog_row =
  cat_id :: string
  displayName :: string
  iconKey :: string
  category :: "string option"

record floorInventory_row =
  fi_id :: int
  fi_floorId :: int
  fi_catalogId :: string
  fi_count :: int

record zoneInventory_row =
  zi_id :: int
  zi_zoneId :: int
  zi_floorInventoryId :: int
  zi_quantity :: int

record zoneObject_row =
  zo_id :: int
  zo_zoneId :: int
  zo_zoneInventoryId :: int
  zo_x :: jsval
  zo_y :: jsval
  zo_rotation :: jsval

text \<open>\<open>Zone\<close> holds the ids of the rows of the \<open>Zone\<close> table.\<close>

record db =
  Zone :: "int list"
  InventoryCatalog :: "catalog_row list"
  FloorInventory :: "floorInventory_row list"
  ZoneInventory :: "zoneInventory_row list"
  ZoneObject :: "zoneObject_row list"
  ZoneInventory_id_seq :: int
  ZoneObject_id_seq :: int

subsection \<open>Exceptions and responses\<close>

text \<open>
  The message of an error. \<open>NotEnoughAvailable n\<close> is the template string
  \<^verbatim>\<open>Not enough available. left=${n}\<close>.
\<close>

datatype message = Text string | NotEnoughAvailable int

text \<open>
  What a handler can catch: an \<open>Error\<close> that was given a \<open>status\<close> property, a Prisma
  request error with one of the codes the handlers test or a foreign key violation
  (\<open>P2003\<close>), or any other exception (a value out of range, a validation error of the
  Prisma client, a \<open>TypeError\<close>, a statement in an aborted transaction).
\<close>

datatype exn = StatusError nat message | PrismaError string | OtherError

record usage =
  u_id :: int
  u_floorId :: int
  u_catalogId :: string
  u_count :: int
  u_used :: int
  u_available :: int
  u_catalog :: "catalog_row option"

datatype body =
    ErrorBody message
  | FloorInventoryBody floorInventory_row "catalog_row option"
  | ZoneInventoryBody zoneInventory_row
  | ZoneObjectBody zoneObject_row
  | UsageBody "usage list"
  | NoBody
  | Unhandled

datatype response = Response (status: nat) (body: body)

text \<open>
  \<open>next(e)\<close> hands the exception to Express's default error handler, which answers
  with the error's \<open>status\<close> when that is a 4xx or 5xx code and with 500 otherwise; the
  body is not the handler's JSON.
\<close>

definition next_handler :: "exn \<Rightarrow> response" where
  "next_handler e =
     (case e of
        StatusError s m \<Rightarrow> Response (if 400 \<le> s \<and> s < 600 then s else 500) Unhandled
      | _ \<Rightarrow> Response 500 Unhandled)"

subsection \<open>Transactions\<close>

text \<open>
  A write of the Prisma client, and a transaction callback, answer \<open>Inr\<close> with the result
  and the new state, or \<open>Inl\<close> with the exception and the state at the point of failure.
  \<open>rollback\<close> gives the tables of the start back; the sequences keep what was drawn.
\<close>

definition rollback :: "db \<Rightarrow> db \<Rightarrow> db" where
  "rollback start failed =
     start\<lparr>ZoneInventory_id_seq := ZoneInventory_id_seq failed,
           ZoneObject_id_seq := ZoneObject_id_seq failed\<rparr>"

definition transaction :: "(db \<Rightarrow> exn \<times> db + 'a \<times> db) \<Rightarrow> db \<Rightarrow> exn \<times> db + 'a \<times> db" where
  "transaction callback d =
     (case callback d of
        Inl (e, failed) \<Rightarrow> Inl (e, rollback d failed)
      | Inr r \<Rightarrow> Inr r)"

subsection \<open>Prisma client operations\<close>

definition catalog_findUnique :: "db \<Rightarrow> string \<Rightarrow> catalog_row option" where
  "catalog_findUnique d cid = find (\<lambda>c. cat_id c = cid) (InventoryCatalog d)"

definition floorInventory_findUnique :: "db \<Rightarrow> int \<Rightarrow> floorInventory_row option" where
  "floorInventory_findUnique d i = find (\<lambda>r. fi_id r = i) (FloorInventory d)"

definition zoneInventory_findUnique :: "db \<Rightarrow> int \<Rightarrow> zoneInventory_row option" where
  "zoneInventory_findUnique d i = find (\<lambda>r. zi_id r = i) (ZoneInventory d)"

definition zoneInventory_findUnique_zoneId_floorInventoryId ::
  "db \<Rightarrow> int \<Rightarrow> int \<Rightarrow> zoneInventory_row option" where
  "zoneInventory_findUnique_zoneId_floorInventoryId d z f =
     find (\<lambda>r. zi_zoneId r = z \<and> zi_floorInventoryId r = f) (ZoneInventory d)"

definition zoneObject_findUnique :: "db \<Rightarrow> int \<Rightarrow> zoneObject_row option" where
  "zoneObject_findUnique d i = find (\<lambda>r. zo_id r = i) (ZoneObject d)"

text \<open>
  \<open>aggregate({ where, _sum: { quantity: true } })\<close>: the sum of the column over the rows
  that match, \<open>null\<close> when no row matches.
\<close>

definition zoneInventory_aggregate_sum ::
  "db \<Rightarrow> (zoneInventory_row \<Rightarrow> bool) \<Rightarrow> int option" where
  "zoneInventory_aggregate_sum d wh =
     (case filter wh (ZoneInventory d) of
        [] \<Rightarrow> None
      | rs \<Rightarrow> Some (sum_list (map zi_quantity rs)))"

text \<open>\<open>agg._sum.quantity ?? 0\<close>\<close>

definition nullish0 :: "int option \<Rightarrow> int" where
  "nullish0 v = (case v of None \<Rightarrow> 0 | Some s \<Rightarrow> s)"

text \<open>
  \<open>create\<close> on \<open>ZoneInventory\<close>. The arguments must fit \<open>INTEGER\<close> and so must the next
  value of the id sequence. The insert draws that value; then the primary key and the
  unique index on \<open>(zoneId, floorInventoryId)\<close> answer \<open>P2002\<close>, and the foreign keys to
  \<open>FloorInventory\<close> and to \<open>Zone\<close> answer \<open>P2003\<close>.
\<close>

definition zoneInventory_create ::
  "db \<Rightarrow> int \<Rightarrow> int \<Rightarrow> int \<Rightarrow> exn \<times> db + zoneInventory_row \<times> db" where
  "zoneInventory_create d z f q =
     (if \<not> int4 z \<or> \<not> int4 f \<or> \<not> int4 q then Inl (OtherError, d)
      else if \<not> int4 (ZoneInventory_id_seq d + 1) then Inl (OtherError, d)
      else
        let i = ZoneInventory_id_seq d + 1;
            drawn = d\<lparr>ZoneInventory_id_seq := i\<rparr>;
            row = \<lparr>zi_id = i, zi_zoneId = z, zi_floorInventoryId = f, zi_quantity = q\<rparr>
        in if zoneInventory_findUnique d i \<noteq> None \<or>
              zoneInventory_findUnique_zoneId_floorInventoryId d z f \<noteq> None
             then Inl (PrismaError ''P2002'', drawn)
           else if floorInventory_findUnique d f = None \<or> z \<notin> set (Zone d)
             then Inl (PrismaError ''P2003'', drawn)
           else Inr (row, drawn\<lparr>ZoneInventory := ZoneInventory d @ [row]\<rparr>))"

text \<open>
  The \<open>data\<close> of an update of an \<open>Int\<close> column: a value, \<open>{ increment: n }\<close> or
  \<open>{ decrement: n }\<close>. The number given must fit \<open>INTEGER\<close>, else the call raises
  whatever the rows are. An increment or a decrement is computed by the database on the
  value of the column, an \<open>INTEGER\<close>, and raises when the result does not fit.
\<close>

datatype int_update = SetTo int | Increment int | Decrement int

fun int_update_fits :: "int_update \<Rightarrow> bool" where
  "int_update_fits (SetTo v) = int4 v"
| "int_update_fits (Increment n) = int4 n"
| "int_update_fits (Decrement n) = int4 n"

fun int_update_value :: "int_update \<Rightarrow> int \<Rightarrow> int" where
  "int_update_value (SetTo v) old = v"
| "int_update_value (Increment n) old = old + n"
| "int_update_value (Decrement n) old = old - n"

fun int_update_ok :: "int_update \<Rightarrow> int \<Rightarrow> bool" where
  "int_update_ok (SetTo v) old = True"
| "int_update_ok (Increment n) old = (int4 old \<and> int4 (old + n))"
| "int_update_ok (Decrement n) old = (int4 old \<and> int4 (old - n))"

text \<open>\<open>update({ where: { id }, data: { quantity } })\<close>: \<open>P2025\<close> when no row has the id.\<close>

definition zoneInventory_update ::
  "db \<Rightarrow> int \<Rightarrow> int_update \<Rightarrow> exn \<times> db + zoneInventory_row \<times> db" where
  "zoneInventory_update d i quantity =
     (if \<not> int4 i \<or> \<not> int_update_fits quantity then Inl (OtherError, d)
      else
        (case zoneInventory_findUnique d i of
           None \<Rightarrow> Inl (PrismaError ''P2025'', d)
         | Some r \<Rightarrow>
             if \<not> int_update_ok quantity (zi_quantity r) then Inl (OtherError, d)
             else
               Inr (r\<lparr>zi_quantity := int_update_value quantity (zi_quantity r)\<rparr>,
                    d\<lparr>ZoneInventory :=
                        map (\<lambda>r. if zi_id r = i
                                  then r\<lparr>zi_quantity := int_update_value quantity (zi_quantity r)\<rparr>
                                  else r)
                          (ZoneInventory d)\<rparr>)))"

text \<open>
  \<open>deleteMany\<close> on \<open>ZoneInventory\<close>; the rows of \<open>ZoneObject\<close> that reference a deleted
  row go with it (\<open>ON DELETE CASCADE\<close>).
\<close>

definition zoneInventory_deleteMany :: "db \<Rightarrow> (zoneInventory_row \<Rightarrow> bool) \<Rightarrow> db" where
  "zoneInventory_deleteMany d wh =
     (let gone = map zi_id (filter wh (ZoneInventory d))
      in d\<lparr>ZoneInventory := filter (\<lambda>r. \<not> wh r) (ZoneInventory d),
            ZoneObject := filter (\<lambda>ob. zo_zoneInventoryId ob \<notin> set gone) (ZoneObject d)\<rparr>)"

definition zoneInventory_delete :: "db \<Rightarrow> int \<Rightarrow> exn \<times> db + db" where
  "zoneInventory_delete d i =
     (if \<not> int4 i then Inl (OtherError, d)
      else
        (case zoneInventory_findUnique d i of
           None \<Rightarrow> Inl (PrismaError ''P2025'', d)
         | Some r \<Rightarrow> Inr (zoneInventory_deleteMany d (\<lambda>r. zi_id r = i))))"

text \<open>
  \<open>update\<close> on \<open>FloorInventory\<close> with \<open>data: { count }\<close>, or with empty \<open>data\<close> when the
  request gave no count.
\<close>

definition floorInventory_update ::
  "db \<Rightarrow> int \<Rightarrow> int option \<Rightarrow> exn \<times> db + floorInventory_row \<times> db" where
  "floorInventory_update d i count =
     (if \<not> int4 i \<or> (case count of None \<Rightarrow> False | Some c \<Rightarrow> \<not> int4 c)
        then Inl (OtherError, d)
      else
        (case floorInventory_findUnique d i of
           None \<Rightarrow> Inl (PrismaError ''P2025'', d)
         | Some r \<Rightarrow>
             Inr ((case count of None \<Rightarrow> r | Some c \<Rightarrow> r\<lparr>fi_count := c\<rparr>),
                  d\<lparr>FloorInventory :=
                      map (\<lambda>r. if fi_id r = i
                                then (case count of None \<Rightarrow> r | Some c \<Rightarrow> r\<lparr>fi_count := c\<rparr>)
                                else r)
                        (FloorInventory d)\<rparr>)))"

text \<open>
  \<open>delete\<close> on \<open>FloorInventory\<close>; the zone inventories that reference the row, and their
  objects, go with it (\<open>ON DELETE CASCADE\<close>).
\<close>

definition floorInventory_delete :: "db \<Rightarrow> int \<Rightarrow> exn \<times> db + db" where
  "floorInventory_delete d i =
     (if \<not> int4 i then Inl (OtherError, d)
      else
        (case floorInventory_findUnique d i of
           None \<Rightarrow> Inl (PrismaError ''P2025'', d)
         | Some r \<Rightarrow>
             Inr ((zoneInventory_deleteMany d (\<lambda>r. zi_floorInventoryId r = i))
                    \<lparr>FloorInventory := filter (\<lambda>r. fi_id r \<noteq> i) (FloorInventory d)\<rparr>)))"

text \<open>
  \<open>create\<close> on \<open>ZoneObject\<close>. The ids must fit \<open>INTEGER\<close> and the three \<open>Float\<close>
  arguments must be finite numbers, else the call raises. The insert draws the next id;
  then the primary key answers \<open>P2002\<close> and the foreign keys to \<open>ZoneInventory\<close> and to
  \<open>Zone\<close> answer \<open>P2003\<close>.
\<close>

definition zoneObject_create ::
  "db \<Rightarrow> int \<Rightarrow> int \<Rightarrow> jsval \<Rightarrow> jsval \<Rightarrow> jsval \<Rightarrow> exn \<times> db + zoneObject_row \<times> db" where
  "zoneObject_create d z zi x y rot =
     (if \<not> int4 z \<or> \<not> int4 zi \<or>
         \<not> Number_isFinite x \<or> \<not> Number_isFinite y \<or> \<not> Number_isFinite rot
        then Inl (OtherError, d)
      else if \<not> int4 (ZoneObject_id_seq d + 1) then Inl (OtherError, d)
      else
        let i = ZoneObject_id_seq d + 1;
            drawn = d\<lparr>ZoneObject_id_seq := i\<rparr>;
            row = \<lparr>zo_id = i, zo_zoneId = z, zo_zoneInventoryId = zi,
                   zo_x = x, zo_y = y, zo_rotation = rot\<rparr>
        in if zoneObject_findUnique d i \<noteq> None
             then Inl (PrismaError ''P2002'', drawn)
           else if zoneInventory_findUnique d zi = None \<or> z \<notin> set (Zone d)
             then Inl (PrismaError ''P2003'', drawn)
           else Inr (row, drawn\<lparr>ZoneObject := ZoneObject d @ [row]\<rparr>))"

text \<open>
  \<open>update\<close> on \<open>ZoneObject\<close>; \<open>JNull\<close> stands for a field that \<open>data\<close> does not have.
\<close>

definition zoneObject_update ::
  "db \<Rightarrow> int \<Rightarrow> jsval \<Rightarrow> jsval \<Rightarrow> jsval \<Rightarrow> exn \<times> db + zoneObject_row \<times> db" where
  "zoneObject_update d i x y rot =
     (if \<not> int4 i \<or> (x \<noteq> JNull \<and> \<not> Number_isFinite x) \<or>
         (y \<noteq> JNull \<and> \<not> Number_isFinite y) \<or> (rot \<noteq> JNull \<and> \<not> Number_isFinite rot)
        then Inl (OtherError, d)
      else
        (case zoneObject_findUnique d i of
           None \<Rightarrow> Inl (PrismaError ''P2025'', d)
         | Some r \<Rightarrow>
             Inr (r\<lparr>zo_x := (if x \<noteq> JNull then x else zo_x r),
                    zo_y := (if y \<noteq> JNull then y else zo_y r),
                    zo_rotation := (if rot \<noteq> JNull then rot else zo_rotation r)\<rparr>,
                  d\<lparr>ZoneObject :=
                      map (\<lambda>r. if zo_id r = i
                                then r\<lparr>zo_x := (if x \<noteq> JNull then x else zo_x r),
                                       zo_y := (if y \<noteq> JNull then y else zo_y r),
                                       zo_rotation :=
                                         (if rot \<noteq> JNull then rot else zo_rotation r)\<rparr>
                                else r)
                        (ZoneObject d)\<rparr>)))"

definition zoneObject_delete :: "db \<Rightarrow> int \<Rightarrow> exn \<times> db + db" where
  "zoneObject_delete d i =
     (if \<not> int4 i then Inl (OtherError, d)
      else
        (case zoneObject_findUnique d i of
           None \<Rightarrow> Inl (PrismaError ''P2025'', d)
         | Some r \<Rightarrow> Inr (d\<lparr>ZoneObject := filter (\<lambda>r. zo_id r \<noteq> i) (ZoneObject d)\<rparr>)))"

subsection \<open>Floor inventory routes\<close>

text \<open>
  \<open>GET /offices/:officeId/floors/:floorId/inventory/with-usage\<close>. The rows of the floor
  come ordered by the display name of their catalog item; the order of strings is the
  lexicographic one, and rows of equal name keep the table's order.
\<close>

definition catalog_displayName :: "db \<Rightarrow> floorInventory_row \<Rightarrow> string" where
  "catalog_displayName d it =
     (case catalog_findUnique d (fi_catalogId it) of None \<Rightarrow> [] | Some c \<Rightarrow> displayName c)"

definition floorInventory_findMany_floor :: "db \<Rightarrow> int \<Rightarrow> floorInventory_row list" where
  "floorInventory_findMany_floor d floorId =
     sort_key (catalog_displayName d) (filter (\<lambda>r. fi_floorId r = floorId) (FloorInventory d))"

definition usage_of :: "db \<Rightarrow> floorInventory_row \<Rightarrow> usage" where
  "usage_of d it =
     (let agg = zoneInventory_aggregate_sum d (\<lambda>r. zi_floorInventoryId r = fi_id it);
          used = nullish0 agg
      in \<lparr>u_id = fi_id it, u_floorId = fi_floorId it, u_catalogId = fi_catalogId it,
          u_count = fi_count it, u_used = used,
          u_available = max (fi_count it - used) 0,
          u_catalog = catalog_findUnique d (fi_catalogId it)\<rparr>)"

definition get_inventory_with_usage :: "db \<Rightarrow> jsval \<Rightarrow> db \<times> response" where
  "get_inventory_with_usage d floorId =
     (if \<not> Number_isFinite floorId then (d, Response 400 (ErrorBody (Text ''Invalid floorId'')))
      else if \<not> Number_isInteger floorId then (d, next_handler OtherError)
      else
        let items = floorInventory_findMany_floor d (int_of floorId);
            result = map (usage_of d) items
        in (d, Response 200 (UsageBody result)))"

text \<open>\<open>PATCH /offices/:officeId/floors/:floorId/inventory/:id\<close>\<close>

definition patch_floor_inventory :: "db \<Rightarrow> jsval \<Rightarrow> jsval \<Rightarrow> db \<times> response" where
  "patch_floor_inventory d ident count =
     (if \<not> Number_isInteger ident then (d, Response 400 (ErrorBody (Text ''Invalid id'')))
      else if count \<noteq> JNull \<and> (\<not> Number_isInteger count \<or> int_of count < 0)
        then (d, Response 400 (ErrorBody (Text ''count must be integer >= 0'')))
      else
        (case floorInventory_update d (int_of ident)
                (if count \<noteq> JNull then Some (int_of count) else None) of
           Inr (updated, d') \<Rightarrow>
             (d', Response 200
                    (FloorInventoryBody updated (catalog_findUnique d' (fi_catalogId updated))))
         | Inl (e, d0) \<Rightarrow>
             if e = PrismaError ''P2025''
               then (d0, Response 404 (ErrorBody (Text ''Inventory item not found'')))
             else (d0, next_handler e)))"

text \<open>
  \<open>DELETE /offices/:officeId/floors/:floorId/inventory/:id\<close>. The handler awaits
  \<open>zoneInventory.deleteMany\<close> and then \<open>floorInventory.delete\<close> on \<open>prisma\<close> itself, not
  inside \<open>$transaction\<close>: the first call has committed when the second one runs.
  \<open>delete_floor_inventory_cleanup\<close> is the state the first call commits.
\<close>

definition delete_floor_inventory_cleanup :: "db \<Rightarrow> int \<Rightarrow> db" where
  "delete_floor_inventory_cleanup d i =
     zoneInventory_deleteMany d (\<lambda>r. zi_floorInventoryId r = i)"

definition delete_floor_inventory :: "db \<Rightarrow> jsval \<Rightarrow> db \<times> response" where
  "delete_floor_inventory d ident =
     (if \<not> Number_isInteger ident then (d, Response 400 (ErrorBody (Text ''Invalid id'')))
      else if \<not> int4 (int_of ident) then (d, next_handler OtherError)
      else
        let d1 = delete_floor_inventory_cleanup d (int_of ident)
        in (case floorInventory_delete d1 (int_of ident) of
              Inr d2 \<Rightarrow> (d2, Response 204 NoBody)
            | Inl (e, d0) \<Rightarrow>
                if e = PrismaError ''P2025''
                  then (d0, Response 404 (ErrorBody (Text ''Inventory item not found'')))
                else (d0, next_handler e)))"

subsection \<open>Zone inventory routes\<close>

text \<open>
  \<open>POST /offices/:officeId/floors/:floorId/zones/:zoneId/inventory\<close>. The callback of
  the transaction first reads (the floor inventory, the sum of the attached quantities,
  the row of this zone) and throws on what it finds; \<open>post_zone_inventory_reads\<close> is
  what it throws, if anything. The lookup of the zone's row has a \<open>catch\<close> that turns an
  error into \<open>null\<close>. Then the callback creates the row.
\<close>

definition post_zone_inventory_reads :: "int \<Rightarrow> int \<Rightarrow> int \<Rightarrow> db \<Rightarrow> exn option" where
  "post_zone_inventory_reads zoneId floorInventoryId quantity tx =
     (if \<not> int4 floorInventoryId then Some OtherError
      else
        (case floorInventory_findUnique tx floorInventoryId of
           None \<Rightarrow> Some (StatusError 404 (Text ''Inventory item not found''))
         | Some fi \<Rightarrow>
             let agg = zoneInventory_aggregate_sum tx
                         (\<lambda>r. zi_floorInventoryId r = floorInventoryId);
                 used = nullish0 agg;
                 available = fi_count fi - used
             in if quantity > available
                  then Some (StatusError 409 (NotEnoughAvailable available))
                else
                  (case (if int4 zoneId
                         then zoneInventory_findUnique_zoneId_floorInventoryId tx zoneId
                                floorInventoryId
                         else None) of
                     Some ex \<Rightarrow> Some (StatusError 409 (Text ''Already attached, use PATCH''))
                   | None \<Rightarrow> None)))"

text \<open>
  The rest of the callback, given what the reads have thrown and the state at the time
  of the write.
\<close>

definition post_zone_inventory_write ::
  "int \<Rightarrow> int \<Rightarrow> int \<Rightarrow> exn option \<Rightarrow> db \<Rightarrow> exn \<times> db + zoneInventory_row \<times> db" where
  "post_zone_inventory_write zoneId floorInventoryId quantity thrown tx =
     (case thrown of
        Some e \<Rightarrow> Inl (e, tx)
      | None \<Rightarrow> zoneInventory_create tx zoneId floorInventoryId quantity)"

definition post_zone_inventory_tx ::
  "int \<Rightarrow> int \<Rightarrow> int \<Rightarrow> db \<Rightarrow> exn \<times> db + zoneInventory_row \<times> db" where
  "post_zone_inventory_tx zoneId floorInventoryId quantity tx =
     post_zone_inventory_write zoneId floorInventoryId quantity
       (post_zone_inventory_reads zoneId floorInventoryId quantity tx) tx"

text \<open>The response to the outcome of the transaction: \<open>201\<close>, or the \<open>catch\<close> of the handler.\<close>

definition post_zone_inventory_response ::
  "exn \<times> db + zoneInventory_row \<times> db \<Rightarrow> db \<times> response" where
  "post_zone_inventory_response outcome =
     (case outcome of
        Inr (created, d') \<Rightarrow> (d', Response 201 (ZoneInventoryBody created))
      | Inl (e, d0) \<Rightarrow>
          (case e of
             StatusError s m \<Rightarrow> (d0, Response s (ErrorBody m))
           | _ \<Rightarrow>
               if e = PrismaError ''P2002''
                 then (d0, Response 409
                             (ErrorBody (Text ''Duplicate (zoneId,floorInventoryId)'')))
               else (d0, next_handler e)))"

definition post_zone_inventory :: "db \<Rightarrow> jsval \<Rightarrow> jsval \<Rightarrow> jsval \<Rightarrow> db \<times> response" where
  "post_zone_inventory d zoneId floorInventoryId quantity =
     (if \<not> Number_isInteger zoneId
        then (d, Response 400 (ErrorBody (Text ''Invalid zoneId'')))
      else if \<not> Number_isInteger floorInventoryId
        then (d, Response 400 (ErrorBody (Text ''floorInventoryId required (int)'')))
      else if \<not> Number_isInteger quantity \<or> int_of quantity < 0
        then (d, Response 400 (ErrorBody (Text ''quantity must be int >= 0'')))
      else
        post_zone_inventory_response
          (transaction
             (post_zone_inventory_tx (int_of zoneId) (int_of floorInventoryId)
                (int_of quantity)) d))"

text \<open>
  Two allocate requests (zone, floor inventory, quantity; all three validated) whose
  transactions overlap: both callbacks do their reads on the state \<open>d\<close>, then the first
  creates its row and commits, then the second creates its row, on the state the first
  has committed, and commits. Nothing in the handler orders the two transactions: it
  opens them with no isolation level and takes no lock.
\<close>

definition post_zone_inventory_overlapped ::
  "db \<Rightarrow> int \<times> int \<times> int \<Rightarrow> int \<times> int \<times> int \<Rightarrow> db \<times> response \<times> response" where
  "post_zone_inventory_overlapped d first second =
     (case (first, second) of
        ((zoneId1, floorInventoryId1, quantity1), (zoneId2, floorInventoryId2, quantity2)) \<Rightarrow>
          let thrown1 = post_zone_inventory_reads zoneId1 floorInventoryId1 quantity1 d;
              thrown2 = post_zone_inventory_reads zoneId2 floorInventoryId2 quantity2 d;
              (d1, response1) =
                post_zone_inventory_response
                  (transaction
                     (post_zone_inventory_write zoneId1 floorInventoryId1 quantity1 thrown1) d);
              (d2, response2) =
                post_zone_inventory_response
                  (transaction
                     (post_zone_inventory_write zoneId2 floorInventoryId2 quantity2 thrown2) d1)
          in (d2, response1, response2))"

text \<open>\<open>PATCH /offices/:officeId/floors/:floorId/zones/:zoneId/inventory/:id\<close>\<close>

definition patch_zone_inventory_tx ::
  "int \<Rightarrow> int \<Rightarrow> db \<Rightarrow> exn \<times> db + zoneInventory_row \<times> db" where
  "patch_zone_inventory_tx ident quantity tx =
     (if \<not> int4 ident then Inl (OtherError, tx)
      else
        (case zoneInventory_findUnique tx ident of
           None \<Rightarrow> Inl (StatusError 404 (Text ''Not found''), tx)
         | Some row \<Rightarrow>
             let agg = zoneInventory_aggregate_sum tx
                         (\<lambda>r. zi_floorInventoryId r = zi_floorInventoryId row \<and>
                               \<not> zi_id r = ident);
                 usedOthers = nullish0 agg
             in (case floorInventory_findUnique tx (zi_floorInventoryId row) of
                   None \<Rightarrow> Inl (OtherError, tx)
                 | Some fi \<Rightarrow>
                     let availableForThis = fi_count fi - usedOthers
                     in if quantity > availableForThis
                          then Inl (StatusError 409 (NotEnoughAvailable availableForThis), tx)
                        else zoneInventory_update tx ident (SetTo quantity))))"

definition patch_zone_inventory :: "db \<Rightarrow> jsval \<Rightarrow> jsval \<Rightarrow> db \<times> response" where
  "patch_zone_inventory d ident quantity =
     (if \<not> Number_isInteger ident then (d, Response 400 (ErrorBody (Text ''Invalid id'')))
      else if \<not> Number_isInteger quantity \<or> int_of quantity < 0
        then (d, Response 400 (ErrorBody (Text ''quantity must be int >= 0'')))
      else
        (case transaction (patch_zone_inventory_tx (int_of ident) (int_of quantity)) d of
           Inr (updated, d') \<Rightarrow> (d', Response 200 (ZoneInventoryBody updated))
         | Inl (e, d0) \<Rightarrow>
             (case e of
                StatusError s m \<Rightarrow> (d0, Response s (ErrorBody m))
              | _ \<Rightarrow> (d0, next_handler e))))"

text \<open>\<open>DELETE /offices/:officeId/floors/:floorId/zones/:zoneId/inventory/:id\<close>\<close>

definition delete_zone_inventory :: "db \<Rightarrow> jsval \<Rightarrow> db \<times> response" where
  "delete_zone_inventory d ident =
     (if \<not> Number_isInteger ident then (d, Response 400 (ErrorBody (Text ''Invalid id'')))
      else
        (case zoneInventory_delete d (int_of ident) of
           Inr d' \<Rightarrow> (d', Response 204 NoBody)
         | Inl (e, d0) \<Rightarrow>
             if e = PrismaError ''P2025''
               then (d0, Response 404 (ErrorBody (Text ''Not found'')))
             else (d0, next_handler e)))"

subsection \<open>Zone object routes\<close>

text \<open>\<open>POST /offices/:officeId/floors/:floorId/zones/:zoneId/objects\<close>\<close>

definition post_zone_object_tx ::
  "jsval \<Rightarrow> int \<Rightarrow> jsval \<Rightarrow> jsval \<Rightarrow> jsval \<Rightarrow> db \<Rightarrow> exn \<times> db + zoneObject_row \<times> db" where
  "post_zone_object_tx zoneId zoneInventoryId x y rotation tx =
     (if \<not> int4 zoneInventoryId then Inl (OtherError, tx)
      else
        (case zoneInventory_findUnique tx zoneInventoryId of
           None \<Rightarrow> Inl (StatusError 404 (Text ''Zone inventory not found''), tx)
         | Some zi \<Rightarrow>
             if JInt (zi_zoneId zi) \<noteq> zoneId
               then Inl (StatusError 400
                           (Text ''zoneInventoryId does not belong to this zone''), tx)
             else
               (case zoneInventory_update tx zoneInventoryId (Increment 1) of
                  Inl thrown \<Rightarrow> Inl thrown
                | Inr (u, tx1) \<Rightarrow>
                    zoneObject_create tx1 (int_of zoneId) zoneInventoryId x y
                      (if typeof_number rotation then rotation else JInt 0))))"

definition post_zone_object ::
  "db \<Rightarrow> jsval \<Rightarrow> jsval \<Rightarrow> jsval \<Rightarrow> jsval \<Rightarrow> jsval \<Rightarrow> db \<times> response" where
  "post_zone_object d zoneId zoneInventoryId x y rotation =
     (if \<not> Number_isFinite zoneId
        then (d, Response 400 (ErrorBody (Text ''Invalid zoneId'')))
      else if \<not> Number_isInteger zoneInventoryId
        then (d, Response 400 (ErrorBody (Text ''zoneInventoryId required (int)'')))
      else if \<not> typeof_number x \<or> \<not> typeof_number y
        then (d, Response 400 (ErrorBody (Text ''x and y must be numbers'')))
      else
        (case transaction
                (post_zone_object_tx zoneId (int_of zoneInventoryId) x y rotation) d of
           Inr (created, d') \<Rightarrow> (d', Response 201 (ZoneObjectBody created))
         | Inl (e, d0) \<Rightarrow>
             (case e of
                StatusError s m \<Rightarrow> (d0, Response s (ErrorBody m))
              | _ \<Rightarrow> (d0, next_handler e))))"

text \<open>
  \<open>PATCH /offices/:officeId/floors/:floorId/zones/:zoneId/objects/:id\<close>. The id has
  only passed \<open>Number.isFinite\<close>.
\<close>

definition patch_zone_object ::
  "db \<Rightarrow> jsval \<Rightarrow> jsval \<Rightarrow> jsval \<Rightarrow> jsval \<Rightarrow> jsval \<Rightarrow> db \<times> response" where
  "patch_zone_object d zoneId ident x y rotation =
     (if \<not> Number_isFinite zoneId \<or> \<not> Number_isFinite ident
        then (d, Response 400 (ErrorBody (Text ''Invalid ids'')))
      else if x \<noteq> JNull \<and> \<not> typeof_number x
        then (d, Response 400 (ErrorBody (Text ''x must be number'')))
      else if y \<noteq> JNull \<and> \<not> typeof_number y
        then (d, Response 400 (ErrorBody (Text ''y must be number'')))
      else if rotation \<noteq> JNull \<and> \<not> typeof_number rotation
        then (d, Response 400 (ErrorBody (Text ''rotation must be number'')))
      else if x = JNull \<and> y = JNull \<and> rotation = JNull
        then (d, Response 400 (ErrorBody (Text ''No fields to update'')))
      else if \<not> Number_isInteger ident \<or> \<not> int4 (int_of ident)
        then (d, next_handler OtherError)
      else
        (case zoneObject_findUnique d (int_of ident) of
           None \<Rightarrow> (d, Response 404 (ErrorBody (Text ''Object not found'')))
         | Some obj \<Rightarrow>
             if JInt (zo_zoneId obj) \<noteq> zoneId
               then (d, Response 400 (ErrorBody (Text ''Object does not belong to this zone'')))
             else
               (case zoneObject_update d (int_of ident) x y rotation of
                  Inr (updated, d') \<Rightarrow> (d', Response 200 (ZoneObjectBody updated))
                | Inl (e, d0) \<Rightarrow> (d0, next_handler e))))"

text \<open>
  \<open>DELETE /offices/:officeId/floors/:floorId/zones/:zoneId/objects/:id\<close>. The \<open>catch\<close>
  on the decrement reads the zone inventory again and rethrows only when the row is
  there with a positive quantity. That lookup works after \<open>P2025\<close> (no row to update);
  after a decrement that failed in the database the transaction is aborted and the
  lookup fails too.
\<close>

definition delete_zone_object_tx :: "jsval \<Rightarrow> jsval \<Rightarrow> db \<Rightarrow> exn \<times> db + unit \<times> db" where
  "delete_zone_object_tx zoneId ident tx =
     (if \<not> Number_isInteger ident \<or> \<not> int4 (int_of ident) then Inl (OtherError, tx)
      else
        (case zoneObject_findUnique tx (int_of ident) of
           None \<Rightarrow> Inl (StatusError 404 (Text ''Object not found''), tx)
         | Some obj \<Rightarrow>
             if JInt (zo_zoneId obj) \<noteq> zoneId
               then Inl (StatusError 400 (Text ''Object does not belong to this zone''), tx)
             else
               (case zoneObject_delete tx (int_of ident) of
                  Inl thrown \<Rightarrow> Inl thrown
                | Inr tx1 \<Rightarrow>
                    (case zoneInventory_update tx1 (zo_zoneInventoryId obj) (Decrement 1) of
                       Inr (u, tx2) \<Rightarrow> Inr ((), tx2)
                     | Inl (e, failed) \<Rightarrow>
                         if e = PrismaError ''P2025''
                           then
                             (case zoneInventory_findUnique tx1 (zo_zoneInventoryId obj) of
                                Some zi \<Rightarrow>
                                  if zi_quantity zi > 0 then Inl (e, failed) else Inr ((), tx1)
                              | None \<Rightarrow> Inr ((), tx1))
                         else Inl (OtherError, failed)))))"

definition delete_zone_object :: "db \<Rightarrow> jsval \<Rightarrow> jsval \<Rightarrow> db \<times> response" where
  "delete_zone_object d zoneId ident =
     (if \<not> Number_isFinite zoneId \<or> \<not> Number_isFinite ident
        then (d, Response 400 (ErrorBody (Text ''Invalid ids'')))
      else
        (case transaction (delete_zone_object_tx zoneId ident) d of
           Inr (u, d') \<Rightarrow> (d', Response 204 NoBody)
         | Inl (e, d0) \<Rightarrow>
             (case e of
                StatusError s m \<Rightarrow> (d0, Response s (ErrorBody m))
              | _ \<Rightarrow>
                  if e = PrismaError ''P2025''
                    then (d0, Response 404 (ErrorBody (Text ''Object not found'')))
                  else (d0, next_handler e))))"

subsection \<open>Requests\<close>

datatype request =
    GetInventoryWithUsage jsval
  | PatchFloorInventory jsval jsval
  | DeleteFloorInventory jsval
  | PostZoneInventory jsval jsval jsval
  | PatchZoneInventory jsval jsval
  | DeleteZoneInventory jsval
  | PostZoneObject jsval jsval jsval jsval jsval
  | PatchZoneObject jsval jsval jsval jsval jsval
  | DeleteZoneObject jsval jsval

fun handle :: "db \<Rightarrow> request \<Rightarrow> db \<times> response" where
  "handle d (GetInventoryWithUsage floorId) = get_inventory_with_usage d floorId"
| "handle d (PatchFloorInventory ident count) = patch_floor_inventory d ident count"
| "handle d (DeleteFloorInventory ident) = delete_floor_inventory d ident"
| "handle d (PostZoneInventory zoneId floorInventoryId quantity) =
     post_zone_inventory d zoneId floorInventoryId quantity"
| "handle d (PatchZoneInventory ident quantity) = patch_zone_inventory d ident quantity"
| "handle d (DeleteZoneInventory ident) = delete_zone_inventory d ident"
| "handle d (PostZoneObject zoneId zoneInventoryId x y rotation) =
     post_zone_object d zoneId zoneInventoryId x y rotation"
| "handle d (PatchZoneObject zoneId ident x y rotation) =
     patch_zone_object d zoneId ident x y rotation"
| "handle d (DeleteZoneObject zoneId ident) = delete_zone_object d zoneId ident"

text \<open>The state after a list of requests, served in order.\<close>

fun serve :: "db \<Rightarrow> request list \<Rightarrow> db" where
  "serve d [] = d"
| "serve d (r # rs) = serve (fst (handle d r)) rs"

text \<open>The responses to a list of requests, served in order.\<close>

fun answers :: "db \<Rightarrow> request list \<Rightarrow> response list" where
  "answers d [] = []"
| "answers d (r # rs) = snd (handle d r) # answers (fst (handle d r)) rs"

text \<open>The requests of the allocation ledger: allocate, re-allocate, deallocate.\<close>

fun ledger_request :: "request \<Rightarrow> bool" where
  "ledger_request (PostZoneInventory zoneId floorInventoryId quantity) = True"
| "ledger_request (PatchZoneInventory ident quantity) = True"
| "ledger_request (DeleteZoneInventory ident) = True"
| "ledger_request r = False"

text \<open>The request that removes an object.\<close>

fun remove_request :: "request \<Rightarrow> bool" where
  "remove_request (DeleteZoneObject zoneId ident) = True"
| "remove_request r = False"

subsection \<open>Derived figures and invariants\<close>

text \<open>The sum of the quantities of the zone inventories that reference a floor inventory.\<close>

definition used :: "db \<Rightarrow> int \<Rightarrow> int" where
  "used d f =
     sum_list (map zi_quantity (filter (\<lambda>r. zi_floorInventoryId r = f) (ZoneInventory d)))"

text \<open>The same sum without the zone inventory of id \<open>i\<close>.\<close>

definition used_by_others :: "db \<Rightarrow> int \<Rightarrow> int \<Rightarrow> int" where
  "used_by_others d f i =
     sum_list (map zi_quantity
       (filter (\<lambda>r. zi_floorInventoryId r = f \<and> zi_id r \<noteq> i) (ZoneInventory d)))"

text \<open>The quantity of the zone inventory of id \<open>i\<close>, when there is one.\<close>

definition quantity_of :: "db \<Rightarrow> int \<Rightarrow> int option" where
  "quantity_of d i = map_option zi_quantity (zoneInventory_findUnique d i)"

definition no_overcommit :: "db \<Rightarrow> bool" where
  "no_overcommit d = (\<forall>fi \<in> set (FloorInventory d). used d (fi_id fi) \<le> fi_count fi)"

text \<open>
  What the primary keys and their sequences guarantee: ids are unique in each table, and
  no id is beyond the last value its sequence has given out.
\<close>

definition primary_keys :: "db \<Rightarrow> bool" where
  "primary_keys d =
     (distinct (map fi_id (FloorInventory d)) \<and>
      distinct (map zi_id (ZoneInventory d)) \<and>
      (\<forall>i \<in> set (map zi_id (ZoneInventory d)). i \<le> ZoneInventory_id_seq d) \<and>
      distinct (map zo_id (ZoneObject d)) \<and>
      (\<forall>i \<in> set (map zo_id (ZoneObject d)). i \<le> ZoneObject_id_seq d))"

definition quantities_nonneg :: "db \<Rightarrow> bool" where
  "quantities_nonneg d = (\<forall>r \<in> set (ZoneInventory d). 0 \<le> zi_quantity r)"

text \<open>
  What the foreign keys guarantee: every zone inventory references a floor inventory
  and a zone that are there, every object a zone inventory and a zone that are there.
\<close>

definition references_ok :: "db \<Rightarrow> bool" where
  "references_ok d =
     ((\<forall>r \<in> set (ZoneInventory d).
         floorInventory_findUnique d (zi_floorInventoryId r) \<noteq> None \<and>
         zi_zoneId r \<in> set (Zone d)) \<and>
      (\<forall>ob \<in> set (ZoneObject d).
         zoneInventory_findUnique d (zo_zoneInventoryId ob) \<noteq> None \<and>
         zo_zoneId ob \<in> set (Zone d)))"

definition ledger_inv :: "db \<Rightarrow> bool" where
  "ledger_inv d = (primary_keys d \<and> quantities_nonneg d \<and> no_overcommit d)"

subsection \<open>Example data\<close>

text \<open>
  Floor 1 has the zones 1 and 2 and holds five chairs (floor inventory 1); nothing is
  attached to a zone yet.
\<close>

definition chair :: catalog_row where
  "chair = \<lparr>cat_id = ''chair'', displayName = ''Chair'', iconKey = ''chair'',
            category = Some ''furniture''\<rparr>"

definition five_chairs :: db where
  "five_chairs =
     \<lparr>Zone = [1, 2],
      InventoryCatalog = [chair],
      FloorInventory = [\<lparr>fi_id = 1, fi_floorId = 1, fi_catalogId = ''chair'', fi_count = 5\<rparr>],
      ZoneInventory = [],
      ZoneObject = [],
      ZoneInventory_id_seq = 0,
      ZoneObject_id_seq = 0\<rparr>"

text \<open>
  A list of ledger requests on the five chairs: zone 1 takes three, zone 2 asks for three
  and then for two, zone 1 goes down to one, zone 2 lets go.
\<close>

definition ledger_requests :: "request list" where
  "ledger_requests =
     [PostZoneInventory (JInt 1) (JInt 1) (JInt 3),
      PostZoneInventory (JInt 2) (JInt 1) (JInt 3),
      PostZoneInventory (JInt 2) (JInt 1) (JInt 2),
      PatchZoneInventory (JInt 1) (JInt 1),
      DeleteZoneInventory (JInt 2)]"

text \<open>The five chairs with three attached to zone 1 and two to zone 2.\<close>

definition two_zones :: db where
  "two_zones =
     five_chairs
       \<lparr>ZoneInventory :=
          [\<lparr>zi_id = 1, zi_zoneId = 1, zi_floorInventoryId = 1, zi_quantity = 3\<rparr>,
           \<lparr>zi_id = 2, zi_zoneId = 2, zi_floorInventoryId = 1, zi_quantity = 2\<rparr>],
        ZoneInventory_id_seq := 2\<rparr>"

text \<open>Placing an object of zone inventory 1 in zone 1, at the origin.\<close>

definition place_one :: request where
  "place_one = PostZoneObject (JInt 1) (JInt 1) (JInt 0) (JInt 0) JNull"

text \<open>Zone 1 takes four chairs and places four objects.\<close>

definition four_placed :: "request list" where
  "four_placed =
     [PostZoneInventory (JInt 1) (JInt 1) (JInt 4),
      place_one, place_one, place_one, place_one]"

text \<open>
  Zone 1 attaches the chairs with quantity 0, places one object, sets the quantity back
  to 0 and removes the object.
\<close>

definition drift_requests :: "request list" where
  "drift_requests =
     [PostZoneInventory (JInt 1) (JInt 1) (JInt 0),
      place_one,
      PatchZoneInventory (JInt 1) (JInt 0),
      DeleteZoneObject (JInt 1) (JInt 1)]"

text \<open>The state \<open>two_zones\<close> after one object has been placed in zone 1.\<close>

definition one_placed :: db where
  "one_placed = fst (post_zone_object two_zones (JInt 1) (JInt 1) (JInt 0) (JInt 0) JNull)"

text \<open>The state \<open>two_zones\<close> after the count of the chairs has been set to 2.\<close>

definition lowered :: db where
  "lowered = fst (patch_floor_inventory two_zones (JInt 1) (JInt 2))"

text \<open>The state \<open>two_zones\<close> after each zone has placed one object.\<close>

definition furnished :: db where
  "furnished =
     serve two_zones
       [PostZoneObject (JInt 1) (JInt 1) (JInt 0) (JInt 0) JNull,
        PostZoneObject (JInt 2) (JInt 2) (JInt 0) (JInt 0) JNull]"

text \<open>
  The count of the chairs goes to 2147483647, the largest \<open>INTEGER\<close>. Zone 1 attaches
  the chairs with quantity 0, places one object, sets the quantity back to 0 and removes
  the object, which leaves its quantity at -1. Zone 2 attaches the chairs with
  quantity 0.
\<close>

definition wide_requests :: "request list" where
  "wide_requests =
     [PatchFloorInventory (JInt 1) (JInt 2147483647),
      PostZoneInventory (JInt 1) (JInt 1) (JInt 0),
      place_one,
      PatchZoneInventory (JInt 1) (JInt 0),
      DeleteZoneObject (JInt 1) (JInt 1),
      PostZoneInventory (JInt 2) (JInt 1) (JInt 0)]"

text \<open>
  The count of the chairs goes to 2147483647. Zone 1 takes 2147483646 and zone 2 takes
  one; zone 2 places two objects, which brings its quantity to 3.
\<close>

definition crowded_requests :: "request list" where
  "crowded_requests =
     [PatchFloorInventory (JInt 1) (JInt 2147483647),
      PostZoneInventory (JInt 1) (JInt 1) (JInt 2147483646),
      PostZoneInventory (JInt 2) (JInt 1) (JInt 1),
      PostZoneObject (JInt 2) (JInt 2) (JInt 0) (JInt 0) JNull,
      PostZoneObject (JInt 2) (JInt 2) (JInt 0) (JInt 0) JNull]"

section \<open>Properties\<close>

lemmas prisma_defs =
  catalog_findUnique_def floorInventory_findUnique_def zoneInventory_findUnique_def
  zoneInventory_findUnique_zoneId_floorInventoryId_def zoneObject_findUnique_def
  zoneInventory_aggregate_sum_def nullish0_def zoneInventory_create_def
  zoneInventory_update_def zoneInventory_deleteMany_def zoneInventory_delete_def
  floorInventory_update_def floorInventory_delete_def zoneObject_create_def
  zoneObject_update_def zoneObject_delete_def next_handler_def typeof_number_def
  int4_def rollback_def transaction_def

lemmas route_defs =
  get_inventory_with_usage_def patch_floor_inventory_def delete_floor_inventory_def
  delete_floor_inventory_cleanup_def post_zone_inventory_reads_def
  post_zone_inventory_write_def post_zone_inventory_tx_def post_zone_inventory_response_def
  post_zone_inventory_def patch_zone_inventory_tx_def patch_zone_inventory_def
  delete_zone_inventory_def post_zone_object_tx_def post_zone_object_def
  patch_zone_object_def delete_zone_object_tx_def delete_zone_object_def

subsection \<open>Request values, transactions and the Prisma operations\<close>

lemma Number_isInteger_JInt [simp]: "Number_isInteger (JInt n)"
  by (simp add: Number_isInteger_def)

lemma int_of_JInt [simp]: "int_of (JInt n) = n"
  by (simp add: int_of_def)

lemma Number_isInteger_numeral [simp]:
  "Number_isInteger (JNum 0)" "Number_isInteger (JNum 1)"
  "Number_isInteger (JNum (numeral k))" "Number_isInteger (JNum (- numeral k))"
  by (simp_all add: Number_isInteger_def)

lemma int_of_numeral [simp]:
  "int_of (JNum 0) = 0" "int_of (JNum 1) = 1"
  "int_of (JNum (numeral k)) = numeral k" "int_of (JNum (- numeral k)) = - numeral k"
  by (simp_all add: int_of_def)

lemma Number_isFinite_JNum [simp]: "Number_isFinite (JNum r)"
  by (simp add: Number_isFinite_def)

lemma typeof_number_JNum [simp]: "typeof_number (JNum r)"
  by (simp add: typeof_number_def)

lemma Number_isInteger_D: "Number_isInteger v \<Longrightarrow> v = JInt (int_of v)"
  by (cases v) (auto simp: Number_isInteger_def int_of_def)

lemma Number_isFinite_D: "Number_isFinite v \<Longrightarrow> \<exists>r. v = JNum r"
  by (cases v) (auto simp: Number_isFinite_def)

lemma int4_one [simp]: "int4 1"
  by (simp add: int4_def)

lemma rollback_same [simp]: "rollback d d = d"
  by (simp add: rollback_def)

lemma rollback_tables [simp]:
  "Zone (rollback d failed) = Zone d"
  "InventoryCatalog (rollback d failed) = InventoryCatalog d"
  "FloorInventory (rollback d failed) = FloorInventory d"
  "ZoneInventory (rollback d failed) = ZoneInventory d"
  "ZoneObject (rollback d failed) = ZoneObject d"
  "ZoneInventory_id_seq (rollback d failed) = ZoneInventory_id_seq failed"
  "ZoneObject_id_seq (rollback d failed) = ZoneObject_id_seq failed"
  by (simp_all add: rollback_def)

lemma nullish0_aggregate:
  "nullish0 (zoneInventory_aggregate_sum d wh) =
     sum_list (map zi_quantity (filter wh (ZoneInventory d)))"
  by (cases "filter wh (ZoneInventory d)")
    (simp_all add: nullish0_def zoneInventory_aggregate_sum_def)

lemma find_unique_fi:
  "distinct (map fi_id rs) \<Longrightarrow> find (\<lambda>r. fi_id r = i) rs = Some fi \<Longrightarrow>
   x \<in> set rs \<Longrightarrow> fi_id x = i \<Longrightarrow> x = fi"
  by (induction rs) (auto split: if_splits)

lemma sum_split_id:
  "distinct (map zi_id rs) \<Longrightarrow> find (\<lambda>r. zi_id r = i) rs = Some row \<Longrightarrow>
   sum_list (map zi_quantity (filter P rs)) =
     sum_list (map zi_quantity (filter (\<lambda>r. P r \<and> \<not> zi_id r = i) rs)) +
       (if P row then zi_quantity row else 0)"
proof (induction rs)
  case Nil
  then show ?case by simp
next
  case (Cons a rs)
  show ?case
  proof (cases "zi_id a = i")
    case True
    with Cons.prems have row: "row = a" by simp
    from True Cons.prems(1) have "i \<notin> zi_id ` set rs" by simp
    then have "\<forall>r\<in>set rs. zi_id r \<noteq> i" by blast
    then have "filter (\<lambda>r. P r \<and> \<not> zi_id r = i) rs = filter P rs"
      by (auto intro: filter_cong)
    with True row show ?thesis by simp
  next
    case False
    with Cons show ?thesis by simp
  qed
qed

lemma sum_after_update:
  "distinct (map zi_id rs) \<Longrightarrow> find (\<lambda>r. zi_id r = i) rs = Some row \<Longrightarrow>
   sum_list (map zi_quantity (filter (\<lambda>r. zi_floorInventoryId r = g)
      (map (\<lambda>r. if zi_id r = i then r\<lparr>zi_quantity := n\<rparr> else r) rs))) =
     sum_list (map zi_quantity
       (filter (\<lambda>r. zi_floorInventoryId r = g \<and> \<not> zi_id r = i) rs)) +
       (if zi_floorInventoryId row = g then n else 0)"
proof (induction rs)
  case Nil
  then show ?case by simp
next
  case (Cons a rs)
  show ?case
  proof (cases "zi_id a = i")
    case True
    with Cons.prems have row: "row = a" by simp
    from True Cons.prems(1) have "i \<notin> zi_id ` set rs" by simp
    then have no: "\<forall>r\<in>set rs. zi_id r \<noteq> i" by blast
    then have m: "map (\<lambda>r. if zi_id r = i then r\<lparr>zi_quantity := n\<rparr> else r) rs = rs"
      by (auto intro: map_idI)
    from no have "filter (\<lambda>r. zi_floorInventoryId r = g \<and> \<not> zi_id r = i) rs
        = filter (\<lambda>r. zi_floorInventoryId r = g) rs"
      by (auto intro: filter_cong)
    with True row m show ?thesis by simp
  next
    case False
    with Cons show ?thesis by simp
  qed
qed

lemma map_id_update:
  "map zi_id (map (\<lambda>r. if zi_id r = i then r\<lparr>zi_quantity := g r\<rparr> else r) rs) = map zi_id rs"
  by (induction rs) auto

lemma sum_filter_le:
  "\<forall>r\<in>set rs. 0 \<le> zi_quantity r \<Longrightarrow>
   sum_list (map zi_quantity (filter (\<lambda>r. P r \<and> Q r) rs))
     \<le> sum_list (map zi_quantity (filter P rs))"
  by (induction rs) auto

lemma find_zone_floor_None:
  "zoneInventory_findUnique_zoneId_floorInventoryId d z f = None \<longleftrightarrow>
     \<not> (\<exists>r \<in> set (ZoneInventory d). zi_zoneId r = z \<and> zi_floorInventoryId r = f)"
  by (auto simp: zoneInventory_findUnique_zoneId_floorInventoryId_def find_None_iff)

lemma find_map_update:
  "find (\<lambda>r. zi_id r = i) (map (\<lambda>r. if zi_id r = j then r\<lparr>zi_quantity := g r\<rparr> else r) rs) =
     map_option (\<lambda>r. if zi_id r = j then r\<lparr>zi_quantity := g r\<rparr> else r)
       (find (\<lambda>r. zi_id r = i) rs)"
  by (induction rs) auto

lemma map_no_match:
  "find (\<lambda>r. zi_id r = a) rs = None \<Longrightarrow> map (\<lambda>r. if zi_id r = a then u r else r) rs = rs"
  by (induction rs) (auto split: if_splits)

lemma quantity_of_map:
  "map_option zi_quantity (find (\<lambda>r. zi_id r = j)
      (map (\<lambda>r. if zi_id r = a then r\<lparr>zi_quantity := g (zi_quantity r)\<rparr> else r) rs)) =
   map_option (\<lambda>q. if j = a then g q else q)
     (map_option zi_quantity (find (\<lambda>r. zi_id r = j) rs))"
  by (induction rs) auto

lemma find_fresh_append:
  "\<forall>r \<in> set rs. \<not> P r \<Longrightarrow> P x \<Longrightarrow> find P (rs @ [x]) = Some x"
  by (induction rs) auto

lemma filter_fresh_append:
  "\<forall>r \<in> set rs. P r \<Longrightarrow> \<not> P x \<Longrightarrow> filter P (rs @ [x]) = rs"
  by (induction rs) auto

lemma map_inc_dec:
  "map (\<lambda>r. if zi_id r = a then r\<lparr>zi_quantity := zi_quantity r - 1\<rparr> else r)
     (map (\<lambda>r. if zi_id r = a then r\<lparr>zi_quantity := zi_quantity r + 1\<rparr> else r) rs) = rs"
  by (induction rs) auto

lemma find_fi_map:
  "find (\<lambda>r. fi_id r = i) (map (\<lambda>r. if fi_id r = j then r\<lparr>fi_count := c\<rparr> else r) rs) =
     map_option (\<lambda>r. if fi_id r = j then r\<lparr>fi_count := c\<rparr> else r)
       (find (\<lambda>r. fi_id r = i) rs)"
  by (induction rs) auto

lemma primary_keys_fresh:
  assumes "primary_keys d"
  shows "zoneInventory_findUnique d (ZoneInventory_id_seq d + 1) = None"
    and "zoneObject_findUnique d (ZoneObject_id_seq d + 1) = None"
  using assms
  by (fastforce simp: primary_keys_def zoneInventory_findUnique_def zoneObject_findUnique_def
      find_None_iff)+

subsection \<open>What each route does to the state\<close>

lemma zoneInventory_create_Inr:
  assumes "zoneInventory_create d z f q = Inr (row, d')"
  shows "row = \<lparr>zi_id = ZoneInventory_id_seq d + 1, zi_zoneId = z,
                zi_floorInventoryId = f, zi_quantity = q\<rparr> \<and>
         d' = d\<lparr>ZoneInventory := ZoneInventory d @ [row],
                ZoneInventory_id_seq := ZoneInventory_id_seq d + 1\<rparr> \<and>
         int4 z \<and> int4 f \<and> int4 q \<and> int4 (ZoneInventory_id_seq d + 1) \<and>
         z \<in> set (Zone d) \<and> floorInventory_findUnique d f \<noteq> None \<and>
         zoneInventory_findUnique d (ZoneInventory_id_seq d + 1) = None \<and>
         zoneInventory_findUnique_zoneId_floorInventoryId d z f = None"
  using assms
  by (auto simp: zoneInventory_create_def Let_def split: if_splits)

lemma zoneInventory_create_Inl:
  assumes "zoneInventory_create d z f q = Inl (e, failed)"
  shows "failed = d \<or> failed = d\<lparr>ZoneInventory_id_seq := ZoneInventory_id_seq d + 1\<rparr>"
  using assms
  by (auto simp: zoneInventory_create_def Let_def split: if_splits)

lemma zoneInventory_update_Inr:
  assumes "zoneInventory_update d i u = Inr (row, d')"
  shows "\<exists>r. zoneInventory_findUnique d i = Some r \<and> int4 i \<and>
             int_update_fits u \<and> int_update_ok u (zi_quantity r) \<and>
             row = r\<lparr>zi_quantity := int_update_value u (zi_quantity r)\<rparr> \<and>
             d' = d\<lparr>ZoneInventory :=
                     map (\<lambda>r. if zi_id r = i
                               then r\<lparr>zi_quantity := int_update_value u (zi_quantity r)\<rparr>
                               else r)
                       (ZoneInventory d)\<rparr>"
  using assms
  by (auto simp: zoneInventory_update_def split: if_splits option.splits)

lemma zoneInventory_update_Inl:
  assumes "zoneInventory_update d i u = Inl (e, failed)"
  shows "failed = d \<and>
         (e = PrismaError ''P2025'' \<longrightarrow> zoneInventory_findUnique d i = None)"
  using assms
  by (auto simp: zoneInventory_update_def split: if_splits option.splits)

lemma zoneObject_create_Inr:
  assumes "zoneObject_create d z a x y rot = Inr (row, d')"
  shows "row = \<lparr>zo_id = ZoneObject_id_seq d + 1, zo_zoneId = z, zo_zoneInventoryId = a,
                zo_x = x, zo_y = y, zo_rotation = rot\<rparr> \<and>
         d' = d\<lparr>ZoneObject := ZoneObject d @ [row],
                ZoneObject_id_seq := ZoneObject_id_seq d + 1\<rparr> \<and>
         int4 z \<and> int4 a \<and> int4 (ZoneObject_id_seq d + 1) \<and>
         Number_isFinite x \<and> Number_isFinite y \<and> Number_isFinite rot \<and>
         z \<in> set (Zone d) \<and> zoneInventory_findUnique d a \<noteq> None \<and>
         zoneObject_findUnique d (ZoneObject_id_seq d + 1) = None"
  using assms
  by (auto simp: zoneObject_create_def Let_def split: if_splits)

lemma zoneObject_create_Inl:
  assumes "zoneObject_create d z a x y rot = Inl (e, failed)"
  shows "failed = d \<or> failed = d\<lparr>ZoneObject_id_seq := ZoneObject_id_seq d + 1\<rparr>"
  using assms
  by (auto simp: zoneObject_create_def Let_def split: if_splits)

lemma post_zone_inventory_tx_Inr:
  assumes "post_zone_inventory_tx z f q d = Inr (row, d')"
  shows "\<exists>fi. floorInventory_findUnique d f = Some fi \<and> q \<le> fi_count fi - used d f \<and>
              zoneInventory_create d z f q = Inr (row, d')"
  using assms
  by (auto simp: post_zone_inventory_tx_def post_zone_inventory_write_def
      post_zone_inventory_reads_def Let_def nullish0_aggregate used_def
      split: option.splits if_splits)

lemma post_zone_inventory_tx_Inl:
  assumes "post_zone_inventory_tx z f q d = Inl (e, failed)"
  shows "failed = d \<or> failed = d\<lparr>ZoneInventory_id_seq := ZoneInventory_id_seq d + 1\<rparr>"
proof (cases "post_zone_inventory_reads z f q d")
  case None
  with assms show ?thesis
    by (auto simp: post_zone_inventory_tx_def post_zone_inventory_write_def
        dest: zoneInventory_create_Inl)
next
  case (Some a)
  with assms show ?thesis
    by (simp add: post_zone_inventory_tx_def post_zone_inventory_write_def)
qed

text \<open>The state after a request is one of a few: what the transaction wrote, or the state
  before, possibly with a value of a sequence used up.\<close>

lemma post_zone_inventory_state:
  "(\<exists>row. post_zone_inventory_tx (int_of zv) (int_of fv) (int_of qv) d =
            Inr (row, fst (post_zone_inventory d zv fv qv)) \<and> 0 \<le> int_of qv) \<or>
   fst (post_zone_inventory d zv fv qv) = d \<or>
   fst (post_zone_inventory d zv fv qv) =
     d\<lparr>ZoneInventory_id_seq := ZoneInventory_id_seq d + 1\<rparr>"
proof (cases "post_zone_inventory_tx (int_of zv) (int_of fv) (int_of qv) d")
  case (Inl a)
  obtain e failed where a: "a = (e, failed)" by (cases a)
  from Inl a post_zone_inventory_tx_Inl [of "int_of zv" "int_of fv" "int_of qv" d e failed]
  have "rollback d failed = d \<or>
      rollback d failed = d\<lparr>ZoneInventory_id_seq := ZoneInventory_id_seq d + 1\<rparr>"
    by (auto simp: rollback_def)
  with Inl a show ?thesis
    by (auto simp: post_zone_inventory_def post_zone_inventory_response_def transaction_def
        split: exn.splits)
next
  case (Inr b)
  then show ?thesis
    by (cases b)
      (auto simp: post_zone_inventory_def post_zone_inventory_response_def transaction_def)
qed

lemma patch_zone_inventory_tx_Inr:
  assumes "patch_zone_inventory_tx i q d = Inr (row', d')"
  shows "\<exists>row fi. zoneInventory_findUnique d i = Some row \<and> int4 i \<and> int4 q \<and>
           floorInventory_findUnique d (zi_floorInventoryId row) = Some fi \<and>
           q \<le> fi_count fi - used_by_others d (zi_floorInventoryId row) i \<and>
           row' = row\<lparr>zi_quantity := q\<rparr> \<and>
           d' = d\<lparr>ZoneInventory :=
                   map (\<lambda>r. if zi_id r = i then r\<lparr>zi_quantity := q\<rparr> else r) (ZoneInventory d)\<rparr>"
  using assms
  by (auto simp: patch_zone_inventory_tx_def Let_def nullish0_aggregate used_by_others_def
      dest!: zoneInventory_update_Inr split: option.splits if_splits)

lemma patch_zone_inventory_tx_Inl:
  assumes "patch_zone_inventory_tx i q d = Inl (e, failed)"
  shows "failed = d"
  using assms
  by (auto simp: patch_zone_inventory_tx_def Let_def dest: zoneInventory_update_Inl
      split: option.splits if_splits)

lemma patch_zone_inventory_state:
  "(\<exists>row. patch_zone_inventory_tx (int_of iv) (int_of qv) d =
            Inr (row, fst (patch_zone_inventory d iv qv)) \<and> 0 \<le> int_of qv) \<or>
   fst (patch_zone_inventory d iv qv) = d"
proof (cases "patch_zone_inventory_tx (int_of iv) (int_of qv) d")
  case (Inl a)
  obtain e failed where a: "a = (e, failed)" by (cases a)
  from Inl a patch_zone_inventory_tx_Inl [of "int_of iv" "int_of qv" d e failed]
  show ?thesis
    by (auto simp: patch_zone_inventory_def transaction_def split: exn.splits)
next
  case (Inr b)
  then show ?thesis
    by (cases b) (auto simp: patch_zone_inventory_def transaction_def)
qed

lemma delete_zone_inventory_state:
  "zoneInventory_delete d (int_of iv) = Inr (fst (delete_zone_inventory d iv)) \<or>
   fst (delete_zone_inventory d iv) = d"
  by (auto simp: delete_zone_inventory_def zoneInventory_delete_def
      split: sum.splits option.splits)

lemma post_zone_object_tx_Inr:
  assumes "post_zone_object_tx zv a x y rot d = Inr (obj, d')"
  shows "\<exists>zi. zoneInventory_findUnique d a = Some zi \<and> JInt (zi_zoneId zi) = zv \<and>
           int4 a \<and> int4 (zi_zoneId zi) \<and> zi_zoneId zi \<in> set (Zone d) \<and>
           int4 (zi_quantity zi) \<and> int4 (zi_quantity zi + 1) \<and>
           int4 (ZoneObject_id_seq d + 1) \<and>
           Number_isFinite x \<and> Number_isFinite y \<and>
           obj = \<lparr>zo_id = ZoneObject_id_seq d + 1, zo_zoneId = zi_zoneId zi,
                   zo_zoneInventoryId = a, zo_x = x, zo_y = y,
                   zo_rotation = (if typeof_number rot then rot else JInt 0)\<rparr> \<and>
           d' = d\<lparr>ZoneInventory :=
                   map (\<lambda>r. if zi_id r = a then r\<lparr>zi_quantity := zi_quantity r + 1\<rparr> else r)
                     (ZoneInventory d),
                  ZoneObject := ZoneObject d @ [obj],
                  ZoneObject_id_seq := ZoneObject_id_seq d + 1\<rparr>"
proof -
  from assms obtain zi where zi: "zoneInventory_findUnique d a = Some zi"
    and a: "int4 a" and zone: "JInt (zi_zoneId zi) = zv"
    by (auto simp: post_zone_object_tx_def split: option.splits if_splits)
  from assms zi a zone obtain u tx1
    where up: "zoneInventory_update d a (Increment 1) = Inr (u, tx1)"
      and cr: "zoneObject_create tx1 (int_of zv) a x y
                 (if typeof_number rot then rot else JInt 0) = Inr (obj, d')"
    by (auto simp: post_zone_object_tx_def split: sum.splits)
  from zone have z: "int_of zv = zi_zoneId zi" by auto
  from zoneInventory_update_Inr [OF up] zi
  have ok: "int4 (zi_quantity zi)" "int4 (zi_quantity zi + 1)"
    and tx1: "tx1 = d\<lparr>ZoneInventory :=
        map (\<lambda>r. if zi_id r = a then r\<lparr>zi_quantity := zi_quantity r + 1\<rparr> else r)
          (ZoneInventory d)\<rparr>"
    by auto
  from zoneObject_create_Inr [OF cr] z tx1 zi a zone ok show ?thesis
    by auto
qed

lemma post_zone_object_tx_Inl:
  assumes "post_zone_object_tx zv a x y rot d = Inl (e, failed)"
  shows "rollback d failed = d \<or>
         rollback d failed = d\<lparr>ZoneObject_id_seq := ZoneObject_id_seq d + 1\<rparr>"
  using assms
  by (auto simp: post_zone_object_tx_def rollback_def
      dest!: zoneInventory_update_Inl zoneInventory_update_Inr zoneObject_create_Inl
      split: option.splits if_splits sum.splits)

lemma post_zone_object_state:
  "(\<exists>obj. post_zone_object_tx zv (int_of av) x y rot d =
            Inr (obj, fst (post_zone_object d zv av x y rot))) \<or>
   fst (post_zone_object d zv av x y rot) = d \<or>
   fst (post_zone_object d zv av x y rot) =
     d\<lparr>ZoneObject_id_seq := ZoneObject_id_seq d + 1\<rparr>"
proof (cases "post_zone_object_tx zv (int_of av) x y rot d")
  case (Inl a)
  obtain e failed where a: "a = (e, failed)" by (cases a)
  from Inl a post_zone_object_tx_Inl [of zv "int_of av" x y rot d e failed]
  show ?thesis
    by (auto simp: post_zone_object_def transaction_def split: exn.splits)
next
  case (Inr b)
  then show ?thesis
    by (cases b) (auto simp: post_zone_object_def transaction_def)
qed

lemma delete_zone_object_tx_Inl:
  assumes "delete_zone_object_tx zv iv d = Inl (e, failed)"
  shows "rollback d failed = d"
  using assms
  by (auto simp: delete_zone_object_tx_def zoneObject_delete_def rollback_def
      dest!: zoneInventory_update_Inl
      split: option.splits if_splits sum.splits)

lemma delete_zone_object_tx_Inr:
  assumes "delete_zone_object_tx zv iv d = Inr (u, d')"
  shows "\<exists>obj. iv = JInt (int_of iv) \<and> int4 (int_of iv) \<and>
           zoneObject_findUnique d (int_of iv) = Some obj \<and> JInt (zo_zoneId obj) = zv \<and>
           d' = d\<lparr>ZoneObject := filter (\<lambda>r. zo_id r \<noteq> int_of iv) (ZoneObject d),
                  ZoneInventory :=
                    map (\<lambda>r. if zi_id r = zo_zoneInventoryId obj
                              then r\<lparr>zi_quantity := zi_quantity r - 1\<rparr> else r)
                      (ZoneInventory d)\<rparr> \<and>
           (\<forall>zi. zoneInventory_findUnique d (zo_zoneInventoryId obj) = Some zi \<longrightarrow>
                 int4 (zi_quantity zi) \<and> int4 (zi_quantity zi - 1))"
proof -
  from assms have int: "Number_isInteger iv" and r: "int4 (int_of iv)"
    by (auto simp: delete_zone_object_tx_def split: if_splits)
  from int have i: "iv = JInt (int_of iv)" by (rule Number_isInteger_D)
  from assms int r obtain obj where obj: "zoneObject_findUnique d (int_of iv) = Some obj"
    and zone: "JInt (zo_zoneId obj) = zv"
    by (auto simp: delete_zone_object_tx_def split: option.splits if_splits)
  define tx1 where "tx1 = d\<lparr>ZoneObject := filter (\<lambda>r. zo_id r \<noteq> int_of iv) (ZoneObject d)\<rparr>"
  have del: "zoneObject_delete d (int_of iv) = Inr tx1"
    using obj r by (simp add: zoneObject_delete_def tx1_def)
  have find1: "zoneInventory_findUnique tx1 j = zoneInventory_findUnique d j" for j
    by (simp add: zoneInventory_findUnique_def tx1_def)
  show ?thesis
  proof (cases "zoneInventory_update tx1 (zo_zoneInventoryId obj) (Decrement 1)")
    case (Inr b)
    obtain row tx2 where b: "b = (row, tx2)" by (cases b)
    from assms int r obj zone del Inr b have d': "d' = tx2"
      by (simp add: delete_zone_object_tx_def)
    from zoneInventory_update_Inr [of tx1 "zo_zoneInventoryId obj" "Decrement 1" row tx2]
      Inr b d' find1 i r obj zone
    show ?thesis
      by (auto simp: tx1_def)
  next
    case (Inl a)
    obtain e failed where a: "a = (e, failed)" by (cases a)
    from assms int r obj zone del Inl a have p: "e = PrismaError ''P2025''" and d': "d' = tx1"
      by (auto simp: delete_zone_object_tx_def split: if_splits option.splits)
    from zoneInventory_update_Inl [of tx1 "zo_zoneInventoryId obj" "Decrement 1" e failed]
      Inl a p find1
    have none: "zoneInventory_findUnique d (zo_zoneInventoryId obj) = None" by simp
    then have "map (\<lambda>r. if zi_id r = zo_zoneInventoryId obj
                         then r\<lparr>zi_quantity := zi_quantity r - 1\<rparr> else r)
                 (ZoneInventory d) = ZoneInventory d"
      by (simp add: zoneInventory_findUnique_def map_no_match)
    with d' none i r obj zone show ?thesis
      by (auto simp: tx1_def)
  qed
qed

lemma delete_zone_object_state:
  "(\<exists>u. delete_zone_object_tx zv iv d = Inr (u, fst (delete_zone_object d zv iv))) \<or>
   fst (delete_zone_object d zv iv) = d"
proof (cases "delete_zone_object_tx zv iv d")
  case (Inl a)
  obtain e failed where a: "a = (e, failed)" by (cases a)
  from Inl a delete_zone_object_tx_Inl [of zv iv d e failed]
  show ?thesis
    by (auto simp: delete_zone_object_def transaction_def split: exn.splits)
next
  case (Inr b)
  then show ?thesis
    by (cases b) (auto simp: delete_zone_object_def transaction_def)
qed

subsection \<open>Served one at a time, the allocation ledger keeps the floor count\<close>

lemma ledger_inv_drawn:
  "ledger_inv d \<Longrightarrow> ledger_inv (d\<lparr>ZoneInventory_id_seq := ZoneInventory_id_seq d + 1\<rparr>)"
  by (fastforce simp: ledger_inv_def primary_keys_def quantities_nonneg_def no_overcommit_def
      used_def)

lemma post_zone_inventory_tx_inv:
  assumes tx: "post_zone_inventory_tx z f q d = Inr (row, d')"
    and q: "0 \<le> q" and inv: "ledger_inv d"
  shows "ledger_inv d'"
proof -
  from post_zone_inventory_tx_Inr [OF tx] obtain fi
    where fi: "floorInventory_findUnique d f = Some fi"
      and cap: "q \<le> fi_count fi - used d f"
      and cr: "zoneInventory_create d z f q = Inr (row, d')"
    by blast
  from zoneInventory_create_Inr [OF cr]
  have row: "row = \<lparr>zi_id = ZoneInventory_id_seq d + 1, zi_zoneId = z,
                     zi_floorInventoryId = f, zi_quantity = q\<rparr>"
    and d': "d' = d\<lparr>ZoneInventory := ZoneInventory d @ [row],
                    ZoneInventory_id_seq := ZoneInventory_id_seq d + 1\<rparr>"
    by simp_all
  from inv have pk: "primary_keys d" and nn: "quantities_nonneg d" and oc: "no_overcommit d"
    by (simp_all add: ledger_inv_def)
  have used': "used d' g = used d g + (if g = f then q else 0)" for g
    by (simp add: used_def d' row)
  have "primary_keys d'"
    using pk by (fastforce simp: primary_keys_def d' row)
  moreover have "quantities_nonneg d'"
    using nn q by (auto simp: quantities_nonneg_def d' row)
  moreover have "no_overcommit d'"
    unfolding no_overcommit_def
  proof
    fix x assume x: "x \<in> set (FloorInventory d')"
    then have xd: "x \<in> set (FloorInventory d)" by (simp add: d')
    with oc have le: "used d (fi_id x) \<le> fi_count x" by (simp add: no_overcommit_def)
    show "used d' (fi_id x) \<le> fi_count x"
    proof (cases "fi_id x = f")
      case True
      from pk have "distinct (map fi_id (FloorInventory d))" by (simp add: primary_keys_def)
      with fi xd True have "x = fi"
        by (auto simp: floorInventory_findUnique_def intro: find_unique_fi)
      with cap True show ?thesis by (simp add: used')
    next
      case False
      with le show ?thesis by (simp add: used')
    qed
  qed
  ultimately show ?thesis by (simp add: ledger_inv_def)
qed

lemma patch_zone_inventory_tx_inv:
  assumes tx: "patch_zone_inventory_tx i q d = Inr (row', d')"
    and q: "0 \<le> q" and inv: "ledger_inv d"
  shows "ledger_inv d'"
proof -
  from patch_zone_inventory_tx_Inr [OF tx] obtain row fi
    where row: "zoneInventory_findUnique d i = Some row"
      and fi: "floorInventory_findUnique d (zi_floorInventoryId row) = Some fi"
      and cap: "q \<le> fi_count fi - used_by_others d (zi_floorInventoryId row) i"
      and d': "d' = d\<lparr>ZoneInventory :=
          map (\<lambda>r. if zi_id r = i then r\<lparr>zi_quantity := q\<rparr> else r) (ZoneInventory d)\<rparr>"
    by blast
  from inv have pk: "primary_keys d" and nn: "quantities_nonneg d" and oc: "no_overcommit d"
    by (simp_all add: ledger_inv_def)
  from pk have dz: "distinct (map zi_id (ZoneInventory d))" by (simp add: primary_keys_def)
  from row have frow: "find (\<lambda>r. zi_id r = i) (ZoneInventory d) = Some row"
    by (simp add: zoneInventory_findUnique_def)
  have used': "used d' g =
      sum_list (map zi_quantity (filter (\<lambda>r. zi_floorInventoryId r = g \<and> \<not> zi_id r = i)
        (ZoneInventory d))) + (if zi_floorInventoryId row = g then q else 0)" for g
    unfolding used_def d' using sum_after_update [OF dz frow] by simp
  have used0: "used d g =
      sum_list (map zi_quantity (filter (\<lambda>r. zi_floorInventoryId r = g \<and> \<not> zi_id r = i)
        (ZoneInventory d))) + (if zi_floorInventoryId row = g then zi_quantity row else 0)" for g
    unfolding used_def
    using sum_split_id [OF dz frow, of "\<lambda>r. zi_floorInventoryId r = g"] by simp
  have ids: "map zi_id (ZoneInventory d') = map zi_id (ZoneInventory d)"
    by (simp add: d' map_id_update del: map_map)
  have "primary_keys d'"
    using pk unfolding primary_keys_def ids by (simp add: d')
  moreover have "quantities_nonneg d'"
    using nn q by (auto simp: quantities_nonneg_def d')
  moreover have "no_overcommit d'"
    unfolding no_overcommit_def
  proof
    fix x assume x: "x \<in> set (FloorInventory d')"
    then have xd: "x \<in> set (FloorInventory d)" by (simp add: d')
    with oc have le: "used d (fi_id x) \<le> fi_count x" by (simp add: no_overcommit_def)
    show "used d' (fi_id x) \<le> fi_count x"
    proof (cases "fi_id x = zi_floorInventoryId row")
      case True
      from pk have "distinct (map fi_id (FloorInventory d))" by (simp add: primary_keys_def)
      with fi xd True have "x = fi"
        by (auto simp: floorInventory_findUnique_def intro: find_unique_fi)
      with cap True show ?thesis by (simp add: used' used_by_others_def)
    next
      case False
      with le show ?thesis by (simp add: used' used0)
    qed
  qed
  ultimately show ?thesis by (simp add: ledger_inv_def)
qed

lemma zoneInventory_delete_inv:
  assumes del: "zoneInventory_delete d i = Inr d'" and inv: "ledger_inv d"
  shows "ledger_inv d'"
proof -
  from del have zi: "ZoneInventory d' = filter (\<lambda>r. \<not> zi_id r = i) (ZoneInventory d)"
    and zo: "ZoneObject d' = filter (\<lambda>ob. zo_zoneInventoryId ob \<notin>
          set (map zi_id (filter (\<lambda>r. zi_id r = i) (ZoneInventory d)))) (ZoneObject d)"
    and rest: "FloorInventory d' = FloorInventory d"
      "ZoneInventory_id_seq d' = ZoneInventory_id_seq d"
      "ZoneObject_id_seq d' = ZoneObject_id_seq d"
    by (auto simp: zoneInventory_delete_def zoneInventory_deleteMany_def Let_def
        split: option.splits if_splits)
  from inv have pk: "primary_keys d" and nn: "quantities_nonneg d" and oc: "no_overcommit d"
    by (simp_all add: ledger_inv_def)
  have "primary_keys d'"
    using pk unfolding primary_keys_def zi zo rest
    by (auto simp: distinct_map_filter)
  moreover have "quantities_nonneg d'"
    using nn by (auto simp: quantities_nonneg_def zi)
  moreover have "no_overcommit d'"
    unfolding no_overcommit_def
  proof
    fix x assume "x \<in> set (FloorInventory d')"
    with oc rest have le: "used d (fi_id x) \<le> fi_count x" by (simp add: no_overcommit_def)
    have "used d' (fi_id x) \<le> used d (fi_id x)"
      unfolding used_def zi filter_filter
      using sum_filter_le [of "ZoneInventory d" "\<lambda>r. zi_floorInventoryId r = fi_id x"
          "\<lambda>r. \<not> zi_id r = i"] nn
      by (simp add: quantities_nonneg_def conj_commute)
    with le show "used d' (fi_id x) \<le> fi_count x" by simp
  qed
  ultimately show ?thesis by (simp add: ledger_inv_def)
qed

lemma handle_ledger_inv:
  assumes "ledger_request r" and inv: "ledger_inv d"
  shows "ledger_inv (fst (handle d r))"
proof (cases r)
  case (PostZoneInventory z f q)
  then show ?thesis
    using inv post_zone_inventory_state [of z f q d] ledger_inv_drawn [of d]
      post_zone_inventory_tx_inv [of "int_of z" "int_of f" "int_of q" d]
    by auto
next
  case (PatchZoneInventory i q)
  then show ?thesis
    using inv patch_zone_inventory_state [of i q d]
      patch_zone_inventory_tx_inv [of "int_of i" "int_of q" d]
    by auto
next
  case (DeleteZoneInventory i)
  then show ?thesis
    using inv delete_zone_inventory_state [of d i] zoneInventory_delete_inv [of d "int_of i"]
    by auto
qed (use assms in simp_all)

lemma serve_ledger_inv:
  "ledger_inv d \<Longrightarrow> list_all ledger_request rs \<Longrightarrow> ledger_inv (serve d rs)"
  by (induction rs arbitrary: d) (simp_all add: handle_ledger_inv)

text \<open>
  Requests that are served one at a time, each transaction committed before the next one
  starts. Start from any state in which the primary keys are in order, no quantity is
  negative and no floor inventory is overcommitted, and serve any list of allocate,
  re-allocate and deallocate requests (well-formed or not, on any floor inventory). Then
  after each request of the list (that is, after its first \<open>n\<close> requests, for every
  \<open>n\<close>) the quantities that reference a floor inventory add up to at most its count, for
  every floor inventory.
\<close>

theorem no_overcommit_one_at_a_time:
  assumes "primary_keys d" and "quantities_nonneg d" and "no_overcommit d"
    and "list_all ledger_request rs"
  shows "no_overcommit (serve d (take n rs))"
proof -
  from assms have "ledger_inv d" by (simp add: ledger_inv_def)
  moreover from assms(4) have "list_all ledger_request (take n rs)"
    by (auto simp: list_all_iff dest: in_set_takeD)
  ultimately have "ledger_inv (serve d (take n rs))" by (rule serve_ledger_inv)
  then show ?thesis by (simp add: ledger_inv_def)
qed

theorem no_overcommit_one_at_a_time_witness:
  "no_overcommit (serve five_chairs (take 3 ledger_requests)) \<and>
   used (serve five_chairs (take 3 ledger_requests)) 1 = 5"
proof -
  have "primary_keys five_chairs" "quantities_nonneg five_chairs" "no_overcommit five_chairs"
    by (simp_all add: five_chairs_def used_def no_overcommit_def primary_keys_def
        quantities_nonneg_def)
  moreover have "list_all ledger_request ledger_requests"
    by (simp add: ledger_requests_def)
  ultimately have "no_overcommit (serve five_chairs (take 3 ledger_requests))"
    by (rule no_overcommit_one_at_a_time)
  moreover have "used (serve five_chairs (take 3 ledger_requests)) 1 = 5"
    by (simp add: ledger_requests_def five_chairs_def chair_def prisma_defs route_defs
        Let_def used_def)
  ultimately show ?thesis by simp
qed

text \<open>
  C1 fails on the code. The bound holds for requests served one at a time, but nothing
  makes the code serve them so: the allocate handler opens its transaction with no
  isolation level and takes no lock. Five chairs, nothing attached; zone 1 and zone 2
  each ask for three, and both transactions read before either writes. Both see zero
  used and five available, both insert and commit, both requests answer 201: six chairs
  are attached and the count is five. Served one after the other, the same two requests
  answer 201 and 409.
\<close>

theorem overlapping_allocations_overcommit:
  "post_zone_inventory_reads 1 1 3 five_chairs = None \<and>
   post_zone_inventory_reads 2 1 3 five_chairs = None \<and>
   status (fst (snd (post_zone_inventory_overlapped five_chairs (1, 1, 3) (2, 1, 3)))) = 201 \<and>
   status (snd (snd (post_zone_inventory_overlapped five_chairs (1, 1, 3) (2, 1, 3)))) = 201 \<and>
   map zi_quantity
     (ZoneInventory (fst (post_zone_inventory_overlapped five_chairs (1, 1, 3) (2, 1, 3))))
     = [3, 3] \<and>
   used (fst (post_zone_inventory_overlapped five_chairs (1, 1, 3) (2, 1, 3))) 1 = 6 \<and>
   map fi_count
     (FloorInventory (fst (post_zone_inventory_overlapped five_chairs (1, 1, 3) (2, 1, 3))))
     = [5] \<and>
   map status
     (answers five_chairs
        [PostZoneInventory (JInt 1) (JInt 1) (JInt 3),
         PostZoneInventory (JInt 2) (JInt 1) (JInt 3)])
     = [201, 409]"
  by (simp add: post_zone_inventory_overlapped_def five_chairs_def prisma_defs route_defs
      Let_def used_def)

subsection \<open>Allocate\<close>

lemma post_zone_inventory_eq:
  assumes "0 \<le> q" and "int4 q" and "int4 z" and "int4 f" and "z \<in> set (Zone d)"
    and "int4 (ZoneInventory_id_seq d + 1)" and "primary_keys d"
  shows "post_zone_inventory d (JInt z) (JInt f) (JInt q) =
      (case floorInventory_findUnique d f of
         None \<Rightarrow> (d, Response 404 (ErrorBody (Text ''Inventory item not found'')))
       | Some fi \<Rightarrow>
           if q > fi_count fi - used d f
             then (d, Response 409 (ErrorBody (NotEnoughAvailable (fi_count fi - used d f))))
           else if \<exists>r \<in> set (ZoneInventory d). zi_zoneId r = z \<and> zi_floorInventoryId r = f
             then (d, Response 409 (ErrorBody (Text ''Already attached, use PATCH'')))
           else
             (d\<lparr>ZoneInventory := ZoneInventory d @
                   [\<lparr>zi_id = ZoneInventory_id_seq d + 1, zi_zoneId = z,
                     zi_floorInventoryId = f, zi_quantity = q\<rparr>],
                 ZoneInventory_id_seq := ZoneInventory_id_seq d + 1\<rparr>,
              Response 201 (ZoneInventoryBody
                   \<lparr>zi_id = ZoneInventory_id_seq d + 1, zi_zoneId = z,
                     zi_floorInventoryId = f, zi_quantity = q\<rparr>)))"
proof (cases "floorInventory_findUnique d f")
  case None
  with assms show ?thesis
    by (simp add: post_zone_inventory_def post_zone_inventory_tx_def
        post_zone_inventory_write_def post_zone_inventory_reads_def
        post_zone_inventory_response_def transaction_def)
next
  case (Some fi)
  show ?thesis
  proof (cases "zoneInventory_findUnique_zoneId_floorInventoryId d z f")
    case None
    with Some assms find_zone_floor_None [of d z f] primary_keys_fresh(1) [of d] show ?thesis
      by (auto simp: post_zone_inventory_def post_zone_inventory_tx_def
          post_zone_inventory_write_def post_zone_inventory_reads_def
          post_zone_inventory_response_def transaction_def Let_def
          nullish0_aggregate used_def zoneInventory_create_def)
  next
    case (Some ex)
    with \<open>floorInventory_findUnique d f = Some fi\<close> assms find_zone_floor_None [of d z f]
    show ?thesis
      by (auto simp: post_zone_inventory_def post_zone_inventory_tx_def
          post_zone_inventory_write_def post_zone_inventory_reads_def
          post_zone_inventory_response_def transaction_def Let_def
          nullish0_aggregate used_def)
  qed
qed

lemma allocate_scenario:
  assumes fi: "floorInventory_findUnique d f = Some fi" and c: "fi_count fi = 5"
    and none: "\<forall>r \<in> set (ZoneInventory d). zi_floorInventoryId r \<noteq> f" and ab: "a \<noteq> b"
    and a: "a \<in> set (Zone d)" "int4 a" and b: "b \<in> set (Zone d)" "int4 b" and f: "int4 f"
    and s: "int4 (ZoneInventory_id_seq d + 1)" "int4 (ZoneInventory_id_seq d + 2)"
    and pk: "primary_keys d"
  shows "(let (d1, r1) = post_zone_inventory d (JInt a) (JInt f) (JInt 3);
            (d2, r2) = post_zone_inventory d1 (JInt b) (JInt f) (JInt 3);
            (d3, r3) = post_zone_inventory d2 (JInt b) (JInt f) (JInt 2)
        in status r1 = 201 \<and> used d1 f = 3 \<and>
           r2 = Response 409 (ErrorBody (NotEnoughAvailable 2)) \<and> d2 = d1 \<and>
           status r3 = 201 \<and> used d3 f = 5)"
proof -
  have i2: "int4 2" and i3: "int4 3" by (simp_all add: int4_def)
  from none have u0: "used d f = 0"
    by (simp add: used_def filter_False)
  define row1 where "row1 = \<lparr>zi_id = ZoneInventory_id_seq d + 1, zi_zoneId = a,
                     zi_floorInventoryId = f, zi_quantity = 3\<rparr>"
  define d1 where "d1 = d\<lparr>ZoneInventory := ZoneInventory d @ [row1],
                 ZoneInventory_id_seq := ZoneInventory_id_seq d + 1\<rparr>"
  have s1: "post_zone_inventory d (JInt a) (JInt f) (JInt 3) =
      (d1, Response 201 (ZoneInventoryBody row1))"
    using post_zone_inventory_eq [of 3 a f d] fi c u0 none a f s(1) i3 pk
    by (auto simp: d1_def row1_def)
  have pk1: "primary_keys d1"
    using pk by (fastforce simp: primary_keys_def d1_def row1_def)
  have fi1: "floorInventory_findUnique d1 f = Some fi"
    using fi by (simp add: floorInventory_findUnique_def d1_def)
  have u1: "used d1 f = 3"
    using u0 by (simp add: used_def d1_def row1_def)
  have z1: "b \<in> set (Zone d1)" and q1: "int4 (ZoneInventory_id_seq d1 + 1)"
    using b s(2) by (simp_all add: d1_def add.commute)
  have s2: "post_zone_inventory d1 (JInt b) (JInt f) (JInt 3) =
      (d1, Response 409 (ErrorBody (NotEnoughAvailable 2)))"
    using post_zone_inventory_eq [of 3 b f d1] fi1 c u1 b(2) f z1 q1 i3 pk1 by simp
  have noB: "\<not> (\<exists>r \<in> set (ZoneInventory d1). zi_zoneId r = b \<and> zi_floorInventoryId r = f)"
    using none ab by (auto simp: d1_def row1_def)
  define row3 where "row3 = \<lparr>zi_id = ZoneInventory_id_seq d1 + 1, zi_zoneId = b,
                     zi_floorInventoryId = f, zi_quantity = 2\<rparr>"
  define d3 where "d3 = d1\<lparr>ZoneInventory := ZoneInventory d1 @ [row3],
                 ZoneInventory_id_seq := ZoneInventory_id_seq d1 + 1\<rparr>"
  have s3: "post_zone_inventory d1 (JInt b) (JInt f) (JInt 2) =
      (d3, Response 201 (ZoneInventoryBody row3))"
    using post_zone_inventory_eq [of 2 b f d1] fi1 c u1 noB b(2) f z1 q1 i2 pk1
    by (simp add: d3_def row3_def)
  have u3: "used d3 f = 5"
    using u1 by (simp add: used_def d3_def row3_def)
  show ?thesis
    using s1 s2 s3 u1 u3 by simp
qed

text \<open>
  C2, as the code has it. Take a state whose primary keys are in order and whose zone
  inventory id sequence has a next value, and an allocate request whose zone id, floor
  inventory id and quantity \<open>q \<ge> 0\<close> fit \<open>INTEGER\<close> and whose zone exists. It answers 404 when the floor inventory is absent; otherwise 409
  with the available figure (count minus the sum of the quantities already attached)
  when \<open>q\<close> exceeds it; otherwise 409 (\<open>Already attached, use PATCH\<close>) when the zone
  already has a row for this floor inventory; otherwise 201 and the new row is inserted.
  A failure leaves the state as it was. In particular, for a floor inventory of count 5
  that nothing references yet and two different existing zones \<open>a\<close> and \<open>b\<close>: three for
  \<open>a\<close> succeeds, three for \<open>b\<close> is refused with available 2 and changes nothing, two for
  \<open>b\<close> succeeds and uses up the five.
\<close>

theorem allocate_behaviour:
  "(0 \<le> q \<and> int4 q \<and> int4 z \<and> int4 f \<and> z \<in> set (Zone d) \<and>
    int4 (ZoneInventory_id_seq d + 1) \<and> primary_keys d \<longrightarrow>
      post_zone_inventory d (JInt z) (JInt f) (JInt q) =
        (case floorInventory_findUnique d f of
           None \<Rightarrow> (d, Response 404 (ErrorBody (Text ''Inventory item not found'')))
         | Some fi \<Rightarrow>
             if q > fi_count fi - used d f
               then (d, Response 409 (ErrorBody (NotEnoughAvailable (fi_count fi - used d f))))
             else if \<exists>r \<in> set (ZoneInventory d). zi_zoneId r = z \<and> zi_floorInventoryId r = f
               then (d, Response 409 (ErrorBody (Text ''Already attached, use PATCH'')))
             else
               (d\<lparr>ZoneInventory := ZoneInventory d @
                     [\<lparr>zi_id = ZoneInventory_id_seq d + 1, zi_zoneId = z,
                       zi_floorInventoryId = f, zi_quantity = q\<rparr>],
                   ZoneInventory_id_seq := ZoneInventory_id_seq d + 1\<rparr>,
                Response 201 (ZoneInventoryBody
                     \<lparr>zi_id = ZoneInventory_id_seq d + 1, zi_zoneId = z,
                       zi_floorInventoryId = f, zi_quantity = q\<rparr>)))) \<and>
   (floorInventory_findUnique d g = Some gi \<and> fi_count gi = 5 \<and>
    (\<forall>r \<in> set (ZoneInventory d). zi_floorInventoryId r \<noteq> g) \<and> a \<noteq> b \<and>
    a \<in> set (Zone d) \<and> int4 a \<and> b \<in> set (Zone d) \<and> int4 b \<and> int4 g \<and>
    int4 (ZoneInventory_id_seq d + 1) \<and> int4 (ZoneInventory_id_seq d + 2) \<and>
    primary_keys d \<longrightarrow>
      (let (d1, r1) = post_zone_inventory d (JInt a) (JInt g) (JInt 3);
           (d2, r2) = post_zone_inventory d1 (JInt b) (JInt g) (JInt 3);
           (d3, r3) = post_zone_inventory d2 (JInt b) (JInt g) (JInt 2)
       in status r1 = 201 \<and> used d1 g = 3 \<and>
          r2 = Response 409 (ErrorBody (NotEnoughAvailable 2)) \<and> d2 = d1 \<and>
          status r3 = 201 \<and> used d3 g = 5))"
proof (intro conjI impI)
  assume "0 \<le> q \<and> int4 q \<and> int4 z \<and> int4 f \<and> z \<in> set (Zone d) \<and>
    int4 (ZoneInventory_id_seq d + 1) \<and> primary_keys d"
  then show "post_zone_inventory d (JInt z) (JInt f) (JInt q) =
        (case floorInventory_findUnique d f of
           None \<Rightarrow> (d, Response 404 (ErrorBody (Text ''Inventory item not found'')))
         | Some fi \<Rightarrow>
             if q > fi_count fi - used d f
               then (d, Response 409 (ErrorBody (NotEnoughAvailable (fi_count fi - used d f))))
             else if \<exists>r \<in> set (ZoneInventory d). zi_zoneId r = z \<and> zi_floorInventoryId r = f
               then (d, Response 409 (ErrorBody (Text ''Already attached, use PATCH'')))
             else
               (d\<lparr>ZoneInventory := ZoneInventory d @
                     [\<lparr>zi_id = ZoneInventory_id_seq d + 1, zi_zoneId = z,
                       zi_floorInventoryId = f, zi_quantity = q\<rparr>],
                   ZoneInventory_id_seq := ZoneInventory_id_seq d + 1\<rparr>,
                Response 201 (ZoneInventoryBody
                     \<lparr>zi_id = ZoneInventory_id_seq d + 1, zi_zoneId = z,
                       zi_floorInventoryId = f, zi_quantity = q\<rparr>)))"
    using post_zone_inventory_eq [of q z f d] by blast
next
  assume "floorInventory_findUnique d g = Some gi \<and> fi_count gi = 5 \<and>
    (\<forall>r \<in> set (ZoneInventory d). zi_floorInventoryId r \<noteq> g) \<and> a \<noteq> b \<and>
    a \<in> set (Zone d) \<and> int4 a \<and> b \<in> set (Zone d) \<and> int4 b \<and> int4 g \<and>
    int4 (ZoneInventory_id_seq d + 1) \<and> int4 (ZoneInventory_id_seq d + 2) \<and>
    primary_keys d"
  then show "let (d1, r1) = post_zone_inventory d (JInt a) (JInt g) (JInt 3);
           (d2, r2) = post_zone_inventory d1 (JInt b) (JInt g) (JInt 3);
           (d3, r3) = post_zone_inventory d2 (JInt b) (JInt g) (JInt 2)
       in status r1 = 201 \<and> used d1 g = 3 \<and>
          r2 = Response 409 (ErrorBody (NotEnoughAvailable 2)) \<and> d2 = d1 \<and>
          status r3 = 201 \<and> used d3 g = 5"
    using allocate_scenario [of d g gi a b] by blast
qed

theorem allocate_behaviour_witness:
  "post_zone_inventory five_chairs (JInt 1) (JInt 1) (JInt 3) =
     (five_chairs
        \<lparr>ZoneInventory :=
           [\<lparr>zi_id = 1, zi_zoneId = 1, zi_floorInventoryId = 1, zi_quantity = 3\<rparr>],
         ZoneInventory_id_seq := 1\<rparr>,
      Response 201 (ZoneInventoryBody
        \<lparr>zi_id = 1, zi_zoneId = 1, zi_floorInventoryId = 1, zi_quantity = 3\<rparr>)) \<and>
   (let (d1, r1) = post_zone_inventory five_chairs (JInt 1) (JInt 1) (JInt 3);
        (d2, r2) = post_zone_inventory d1 (JInt 2) (JInt 1) (JInt 3);
        (d3, r3) = post_zone_inventory d2 (JInt 2) (JInt 1) (JInt 2)
    in status r1 = 201 \<and> used d1 1 = 3 \<and>
       r2 = Response 409 (ErrorBody (NotEnoughAvailable 2)) \<and> d2 = d1 \<and>
       status r3 = 201 \<and> used d3 1 = 5)"
proof -
  have "floorInventory_findUnique five_chairs 1 =
          Some \<lparr>fi_id = 1, fi_floorId = 1, fi_catalogId = ''chair'', fi_count = 5\<rparr> \<and>
        fi_count \<lparr>fi_id = 1, fi_floorId = 1, fi_catalogId = ''chair'', fi_count = 5\<rparr> = 5 \<and>
        (\<forall>r \<in> set (ZoneInventory five_chairs). zi_floorInventoryId r \<noteq> 1) \<and> (1::int) \<noteq> 2 \<and>
        1 \<in> set (Zone five_chairs) \<and> int4 1 \<and> 2 \<in> set (Zone five_chairs) \<and> int4 2 \<and> int4 1 \<and>
        int4 (ZoneInventory_id_seq five_chairs + 1) \<and>
        int4 (ZoneInventory_id_seq five_chairs + 2) \<and> primary_keys five_chairs"
    by (simp add: five_chairs_def floorInventory_findUnique_def int4_def primary_keys_def)
  with allocate_behaviour [where d = five_chairs and g = 1 and a = 1 and b = 2
      and gi = "\<lparr>fi_id = 1, fi_floorId = 1, fi_catalogId = ''chair'', fi_count = 5\<rparr>"]
  have "let (d1, r1) = post_zone_inventory five_chairs (JInt 1) (JInt 1) (JInt 3);
            (d2, r2) = post_zone_inventory d1 (JInt 2) (JInt 1) (JInt 3);
            (d3, r3) = post_zone_inventory d2 (JInt 2) (JInt 1) (JInt 2)
        in status r1 = 201 \<and> used d1 1 = 3 \<and>
           r2 = Response 409 (ErrorBody (NotEnoughAvailable 2)) \<and> d2 = d1 \<and>
           status r3 = 201 \<and> used d3 1 = 5"
    by blast
  moreover have "post_zone_inventory five_chairs (JInt 1) (JInt 1) (JInt 3) =
     (five_chairs
        \<lparr>ZoneInventory :=
           [\<lparr>zi_id = 1, zi_zoneId = 1, zi_floorInventoryId = 1, zi_quantity = 3\<rparr>],
         ZoneInventory_id_seq := 1\<rparr>,
      Response 201 (ZoneInventoryBody
        \<lparr>zi_id = 1, zi_zoneId = 1, zi_floorInventoryId = 1, zi_quantity = 3\<rparr>))"
    using allocate_behaviour [where q = 3 and d = five_chairs and z = 1 and f = 1]
    by (simp add: five_chairs_def floorInventory_findUnique_def used_def int4_def
        primary_keys_def)
  ultimately show ?thesis by blast
qed

text \<open>
  C2 as stated fails. The five chairs are there, nothing is attached and two are asked
  for, so none of the three failures of the claim applies; but zone 3 does not exist, the
  insert violates the foreign key, the request answers 500 and no row is inserted (the
  id sequence has moved on by one). And for the floor inventory id 2147483648, which no
  floor inventory has, the lookup raises and the request answers 500, not 404.
\<close>

theorem allocate_counterexample:
  "floorInventory_findUnique five_chairs 1 =
     Some \<lparr>fi_id = 1, fi_floorId = 1, fi_catalogId = ''chair'', fi_count = 5\<rparr> \<and>
   used five_chairs 1 = 0 \<and> ZoneInventory five_chairs = [] \<and>
   post_zone_inventory five_chairs (JInt 3) (JInt 1) (JInt 2) =
     (five_chairs\<lparr>ZoneInventory_id_seq := 1\<rparr>, Response 500 Unhandled) \<and>
   floorInventory_findUnique five_chairs 2147483648 = None \<and>
   post_zone_inventory five_chairs (JInt 1) (JInt 2147483648) (JInt 2) =
     (five_chairs, Response 500 Unhandled)"
  by (simp add: five_chairs_def prisma_defs route_defs Let_def used_def)

subsection \<open>Re-allocate\<close>

lemma patch_zone_inventory_eq:
  assumes "0 \<le> q" and "int4 q" and "int4 i"
  shows "patch_zone_inventory d (JInt i) (JInt q) =
      (case zoneInventory_findUnique d i of
         None \<Rightarrow> (d, Response 404 (ErrorBody (Text ''Not found'')))
       | Some row \<Rightarrow>
           (case floorInventory_findUnique d (zi_floorInventoryId row) of
              None \<Rightarrow> (d, Response 500 Unhandled)
            | Some fi \<Rightarrow>
                if q > fi_count fi - used_by_others d (zi_floorInventoryId row) i
                  then (d, Response 409 (ErrorBody (NotEnoughAvailable
                          (fi_count fi - used_by_others d (zi_floorInventoryId row) i))))
                else
                  (d\<lparr>ZoneInventory :=
                       map (\<lambda>r. if zi_id r = i then r\<lparr>zi_quantity := q\<rparr> else r)
                         (ZoneInventory d)\<rparr>,
                   Response 200 (ZoneInventoryBody (row\<lparr>zi_quantity := q\<rparr>)))))"
  using assms
  by (simp add: patch_zone_inventory_def patch_zone_inventory_tx_def Let_def
      nullish0_aggregate used_by_others_def zoneInventory_update_def next_handler_def
      transaction_def split: option.splits)

lemma reallocate_scenario:
  assumes row: "zoneInventory_findUnique d i = Some row"
    and fi: "floorInventory_findUnique d (zi_floorInventoryId row) = Some fi"
    and c: "fi_count fi = 5" and o: "used_by_others d (zi_floorInventoryId row) i = 2"
    and q3: "zi_quantity row = 3" and i: "int4 i"
  shows "status (snd (patch_zone_inventory d (JInt i) (JInt 1))) = 200 \<and>
         quantity_of (fst (patch_zone_inventory d (JInt i) (JInt 1))) i = Some 1 \<and>
         patch_zone_inventory d (JInt i) (JInt 4) =
           (d, Response 409 (ErrorBody (NotEnoughAvailable 3)))"
proof -
  have i1: "int4 1" and i4: "int4 4" by (simp_all add: int4_def)
  have "patch_zone_inventory d (JInt i) (JInt 1) =
      (d\<lparr>ZoneInventory := map (\<lambda>r. if zi_id r = i then r\<lparr>zi_quantity := 1\<rparr> else r)
            (ZoneInventory d)\<rparr>, Response 200 (ZoneInventoryBody (row\<lparr>zi_quantity := 1\<rparr>)))"
    using patch_zone_inventory_eq [of 1 i d] row fi c o i i1 by simp
  moreover have "patch_zone_inventory d (JInt i) (JInt 4) =
      (d, Response 409 (ErrorBody (NotEnoughAvailable 3)))"
    using patch_zone_inventory_eq [of 4 i d] row fi c o i i4 by simp
  moreover from row have "zi_id row = i"
    by (auto simp: zoneInventory_findUnique_def dest: find_Some_iff [THEN iffD1])
  ultimately show ?thesis
    using row by (simp add: quantity_of_def zoneInventory_findUnique_def find_map_update)
qed

lemma used_by_others_eq:
  assumes "primary_keys d" and "zoneInventory_findUnique d i = Some row"
  shows "used_by_others d (zi_floorInventoryId row) i =
           used d (zi_floorInventoryId row) - zi_quantity row"
  using assms
    sum_split_id [of "ZoneInventory d" i row "\<lambda>r. zi_floorInventoryId r = zi_floorInventoryId row"]
  by (simp add: used_by_others_def used_def primary_keys_def zoneInventory_findUnique_def)

text \<open>
  C3, as the code has it. Take a re-allocate request whose id and quantity \<open>q \<ge> 0\<close> fit
  \<open>INTEGER\<close>. It answers 404 when no zone inventory has the id; otherwise, with
  \<open>used_by_others\<close> the sum of the quantities that reference the same floor inventory
  without this row, 409 with the figure \<open>count - used_by_others\<close> when \<open>q\<close> exceeds it,
  and 200 with the quantity of the row set to \<open>q\<close> when it does not. A failure leaves the
  state as it was. (An existing row whose floor inventory is missing would answer 500;
  the foreign key rules that out.) With unique ids, \<open>used_by_others\<close> is \<open>used\<close> minus
  the row's own quantity. In particular, with count 5, this row at 3 and the others at 2:
  going to 1 succeeds, going to 4 is refused with available 3.
\<close>

theorem reallocate_behaviour:
  "(0 \<le> q \<and> int4 q \<and> int4 i \<longrightarrow>
      patch_zone_inventory d (JInt i) (JInt q) =
        (case zoneInventory_findUnique d i of
           None \<Rightarrow> (d, Response 404 (ErrorBody (Text ''Not found'')))
         | Some row \<Rightarrow>
             (case floorInventory_findUnique d (zi_floorInventoryId row) of
                None \<Rightarrow> (d, Response 500 Unhandled)
              | Some fi \<Rightarrow>
                  if q > fi_count fi - used_by_others d (zi_floorInventoryId row) i
                    then (d, Response 409 (ErrorBody (NotEnoughAvailable
                            (fi_count fi - used_by_others d (zi_floorInventoryId row) i))))
                  else
                    (d\<lparr>ZoneInventory :=
                         map (\<lambda>r. if zi_id r = i then r\<lparr>zi_quantity := q\<rparr> else r)
                           (ZoneInventory d)\<rparr>,
                     Response 200 (ZoneInventoryBody (row\<lparr>zi_quantity := q\<rparr>)))))) \<and>
   (primary_keys d \<and> zoneInventory_findUnique d j = Some this \<longrightarrow>
      used_by_others d (zi_floorInventoryId this) j =
        used d (zi_floorInventoryId this) - zi_quantity this) \<and>
   (zoneInventory_findUnique d k = Some row \<and>
    floorInventory_findUnique d (zi_floorInventoryId row) = Some fi \<and>
    fi_count fi = 5 \<and> used_by_others d (zi_floorInventoryId row) k = 2 \<and>
    zi_quantity row = 3 \<and> int4 k \<longrightarrow>
      status (snd (patch_zone_inventory d (JInt k) (JInt 1))) = 200 \<and>
      quantity_of (fst (patch_zone_inventory d (JInt k) (JInt 1))) k = Some 1 \<and>
      patch_zone_inventory d (JInt k) (JInt 4) =
        (d, Response 409 (ErrorBody (NotEnoughAvailable 3))))"
  using patch_zone_inventory_eq [of q i d] used_by_others_eq [of d j this]
    reallocate_scenario [of d k row fi]
  by blast

theorem reallocate_behaviour_witness:
  "patch_zone_inventory two_zones (JInt 1) (JInt 1) =
     (two_zones
        \<lparr>ZoneInventory :=
           [\<lparr>zi_id = 1, zi_zoneId = 1, zi_floorInventoryId = 1, zi_quantity = 1\<rparr>,
            \<lparr>zi_id = 2, zi_zoneId = 2, zi_floorInventoryId = 1, zi_quantity = 2\<rparr>]\<rparr>,
      Response 200 (ZoneInventoryBody
        \<lparr>zi_id = 1, zi_zoneId = 1, zi_floorInventoryId = 1, zi_quantity = 1\<rparr>)) \<and>
   used_by_others two_zones 1 1 = 2 \<and>
   quantity_of (fst (patch_zone_inventory two_zones (JInt 1) (JInt 1))) 1 = Some 1 \<and>
   patch_zone_inventory two_zones (JInt 1) (JInt 4) =
     (two_zones, Response 409 (ErrorBody (NotEnoughAvailable 3)))"
proof -
  let ?row = "\<lparr>zi_id = 1, zi_zoneId = 1, zi_floorInventoryId = 1, zi_quantity = 3\<rparr>"
  let ?fi = "\<lparr>fi_id = 1, fi_floorId = 1, fi_catalogId = ''chair'', fi_count = 5\<rparr>"
  have "zoneInventory_findUnique two_zones 1 = Some ?row \<and>
        floorInventory_findUnique two_zones (zi_floorInventoryId ?row) = Some ?fi \<and>
        fi_count ?fi = 5 \<and> used_by_others two_zones (zi_floorInventoryId ?row) 1 = 2 \<and>
        zi_quantity ?row = 3 \<and> int4 1"
    by (simp add: two_zones_def five_chairs_def floorInventory_findUnique_def
        zoneInventory_findUnique_def used_by_others_def int4_def)
  with reallocate_behaviour [where d = two_zones and k = 1 and row = ?row and fi = ?fi]
  have "status (snd (patch_zone_inventory two_zones (JInt 1) (JInt 1))) = 200 \<and>
      quantity_of (fst (patch_zone_inventory two_zones (JInt 1) (JInt 1))) 1 = Some 1 \<and>
      patch_zone_inventory two_zones (JInt 1) (JInt 4) =
        (two_zones, Response 409 (ErrorBody (NotEnoughAvailable 3)))"
    by blast
  moreover have "patch_zone_inventory two_zones (JInt 1) (JInt 1) =
     (two_zones
        \<lparr>ZoneInventory :=
           [\<lparr>zi_id = 1, zi_zoneId = 1, zi_floorInventoryId = 1, zi_quantity = 1\<rparr>,
            \<lparr>zi_id = 2, zi_zoneId = 2, zi_floorInventoryId = 1, zi_quantity = 2\<rparr>]\<rparr>,
      Response 200 (ZoneInventoryBody
        \<lparr>zi_id = 1, zi_zoneId = 1, zi_floorInventoryId = 1, zi_quantity = 1\<rparr>))"
    using reallocate_behaviour [where q = 1 and d = two_zones and i = 1]
    by (simp add: two_zones_def five_chairs_def floorInventory_findUnique_def
        zoneInventory_findUnique_def used_by_others_def int4_def)
  moreover have "primary_keys two_zones"
    by (simp add: two_zones_def five_chairs_def primary_keys_def)
  with reallocate_behaviour [where d = two_zones and j = 1 and this = ?row]
  have "used_by_others two_zones 1 1 = 2"
    by (simp add: two_zones_def five_chairs_def zoneInventory_findUnique_def used_def)
  ultimately show ?thesis by blast
qed

lemma serve_wide_requests:
  "serve five_chairs wide_requests =
     five_chairs
       \<lparr>FloorInventory :=
          [\<lparr>fi_id = 1, fi_floorId = 1, fi_catalogId = ''chair'', fi_count = 2147483647\<rparr>],
        ZoneInventory :=
          [\<lparr>zi_id = 1, zi_zoneId = 1, zi_floorInventoryId = 1, zi_quantity = - 1\<rparr>,
           \<lparr>zi_id = 2, zi_zoneId = 2, zi_floorInventoryId = 1, zi_quantity = 0\<rparr>],
        ZoneInventory_id_seq := 2,
        ZoneObject_id_seq := 1\<rparr>"
  by (simp add: five_chairs_def place_one_def wide_requests_def prisma_defs route_defs Let_def)

text \<open>
  C3 as stated fails. After the requests of \<open>wide_requests\<close>, which all succeed, the
  count is 2147483647, zone inventory 1 stands at -1 and zone inventory 2 at 0. A
  re-allocate of zone inventory 2 to 2147483648 does not exceed
  \<open>count - used_by_others = 2147483648\<close>, so the check lets it through; the update
  raises, the request answers 500 and the quantity stays 0.
\<close>

theorem reallocate_counterexample:
  "map status (answers five_chairs wide_requests) = [200, 201, 201, 200, 204, 201] \<and>
   quantity_of (serve five_chairs wide_requests) 2 = Some 0 \<and>
   map fi_count (FloorInventory (serve five_chairs wide_requests)) = [2147483647] \<and>
   used_by_others (serve five_chairs wide_requests) 1 2 = - 1 \<and>
   patch_zone_inventory (serve five_chairs wide_requests) (JInt 2) (JInt 2147483648) =
     (serve five_chairs wide_requests, Response 500 Unhandled)"
proof -
  have "map status (answers five_chairs wide_requests) = [200, 201, 201, 200, 204, 201]"
    by (simp add: five_chairs_def place_one_def wide_requests_def prisma_defs route_defs
        Let_def)
  moreover have "quantity_of (serve five_chairs wide_requests) 2 = Some 0 \<and>
      map fi_count (FloorInventory (serve five_chairs wide_requests)) = [2147483647] \<and>
      used_by_others (serve five_chairs wide_requests) 1 2 = - 1 \<and>
      patch_zone_inventory (serve five_chairs wide_requests) (JInt 2) (JInt 2147483648) =
        (serve five_chairs wide_requests, Response 500 Unhandled)"
    unfolding serve_wide_requests
    by (simp add: five_chairs_def prisma_defs route_defs Let_def quantity_of_def
        used_by_others_def)
  ultimately show ?thesis by blast
qed

subsection \<open>Place and remove\<close>

lemma post_zone_object_tx_thrown:
  assumes "post_zone_object_tx zv a x y rot d = Inl (e, failed)"
  shows "\<forall>s m. e = StatusError s m \<longrightarrow> s = 404 \<or> s = 400"
  using assms
  by (auto simp: post_zone_object_tx_def zoneInventory_update_def zoneObject_create_def Let_def
      split: option.splits if_splits sum.splits)

lemma delete_zone_object_tx_thrown:
  assumes "delete_zone_object_tx zv iv d = Inl (e, failed)"
  shows "\<forall>s m. e = StatusError s m \<longrightarrow> s = 404 \<or> s = 400"
  using assms
  by (auto simp: delete_zone_object_tx_def zoneInventory_update_def zoneObject_delete_def
      split: option.splits if_splits sum.splits)

lemma place_success_D:
  assumes "status (snd (post_zone_object d zv av x y rot)) = 201"
  shows "\<exists>obj d'. post_zone_object_tx zv (int_of av) x y rot d = Inr (obj, d') \<and>
           post_zone_object d zv av x y rot = (d', Response 201 (ZoneObjectBody obj))"
proof (cases "post_zone_object_tx zv (int_of av) x y rot d")
  case (Inl a)
  obtain e failed where a: "a = (e, failed)" by (cases a)
  from Inl a post_zone_object_tx_thrown [of zv "int_of av" x y rot d e failed] assms
  show ?thesis
    by (auto simp: post_zone_object_def transaction_def next_handler_def
        split: if_splits exn.splits)
next
  case (Inr b)
  obtain obj d' where b: "b = (obj, d')" by (cases b)
  from Inr b assms show ?thesis
    by (auto simp: post_zone_object_def transaction_def split: if_splits)
qed

lemma remove_success_D:
  assumes "status (snd (delete_zone_object d zv iv)) = 204"
  shows "\<exists>u d'. delete_zone_object_tx zv iv d = Inr (u, d') \<and>
           delete_zone_object d zv iv = (d', Response 204 NoBody)"
proof (cases "delete_zone_object_tx zv iv d")
  case (Inl a)
  obtain e failed where a: "a = (e, failed)" by (cases a)
  from Inl a delete_zone_object_tx_thrown [of zv iv d e failed] assms
  show ?thesis
    by (auto simp: delete_zone_object_def transaction_def next_handler_def
        split: if_splits exn.splits)
next
  case (Inr b)
  obtain u d' where b: "b = (u, d')" by (cases b)
  from Inr b assms show ?thesis
    by (auto simp: delete_zone_object_def transaction_def split: if_splits)
qed

lemma post_zone_object_eq:
  assumes zi: "zoneInventory_findUnique d a = Some zi" and zone: "zi_zoneId zi = z"
    and z: "z \<in> set (Zone d)" "int4 z" and a: "int4 a"
    and q: "int4 (zi_quantity zi)" "int4 (zi_quantity zi + 1)"
    and s: "int4 (ZoneObject_id_seq d + 1)"
    and xy: "Number_isFinite x" "Number_isFinite y"
    and rot: "typeof_number rot \<longrightarrow> Number_isFinite rot"
    and pk: "primary_keys d"
  shows "post_zone_object d (JInt z) (JInt a) x y rot =
           (d\<lparr>ZoneInventory :=
                 map (\<lambda>r. if zi_id r = a then r\<lparr>zi_quantity := zi_quantity r + 1\<rparr> else r)
                   (ZoneInventory d),
               ZoneObject := ZoneObject d @
                 [\<lparr>zo_id = ZoneObject_id_seq d + 1, zo_zoneId = z,
                   zo_zoneInventoryId = a, zo_x = x, zo_y = y,
                   zo_rotation = (if typeof_number rot then rot else JInt 0)\<rparr>],
               ZoneObject_id_seq := ZoneObject_id_seq d + 1\<rparr>,
            Response 201 (ZoneObjectBody
                 \<lparr>zo_id = ZoneObject_id_seq d + 1, zo_zoneId = z,
                   zo_zoneInventoryId = a, zo_x = x, zo_y = y,
                   zo_rotation = (if typeof_number rot then rot else JInt 0)\<rparr>))"
proof -
  from xy obtain rx ry where n: "x = JNum rx" "y = JNum ry"
    using Number_isFinite_D by blast
  have fr: "Number_isFinite (if typeof_number rot then rot else JInt 0)"
    using rot by simp
  define tx1 where "tx1 = d\<lparr>ZoneInventory :=
      map (\<lambda>r. if zi_id r = a then r\<lparr>zi_quantity := zi_quantity r + 1\<rparr> else r)
        (ZoneInventory d)\<rparr>"
  have up: "zoneInventory_update d a (Increment 1) = Inr (zi\<lparr>zi_quantity := zi_quantity zi + 1\<rparr>, tx1)"
    using zi a q by (simp add: zoneInventory_update_def tx1_def)
  from zi have "find (\<lambda>r. zi_id r = a)
      (map (\<lambda>r. if zi_id r = a then r\<lparr>zi_quantity := zi_quantity r + 1\<rparr> else r)
        (ZoneInventory d)) \<noteq> None"
    by (simp add: find_map_update zoneInventory_findUnique_def)
  then have f1: "zoneInventory_findUnique tx1 a \<noteq> None"
    by (simp add: zoneInventory_findUnique_def tx1_def)
  have fresh: "zoneObject_findUnique tx1 (ZoneObject_id_seq d + 1) = None"
    using primary_keys_fresh(2) [OF pk] by (simp add: zoneObject_findUnique_def tx1_def)
  have cr: "zoneObject_create tx1 z a x y (if typeof_number rot then rot else JInt 0) =
      Inr (\<lparr>zo_id = ZoneObject_id_seq d + 1, zo_zoneId = z, zo_zoneInventoryId = a,
            zo_x = x, zo_y = y, zo_rotation = (if typeof_number rot then rot else JInt 0)\<rparr>,
           tx1\<lparr>ZoneObject_id_seq := ZoneObject_id_seq d + 1,
               ZoneObject := ZoneObject d @
                 [\<lparr>zo_id = ZoneObject_id_seq d + 1, zo_zoneId = z, zo_zoneInventoryId = a,
                   zo_x = x, zo_y = y,
                   zo_rotation = (if typeof_number rot then rot else JInt 0)\<rparr>]\<rparr>)"
    using z a s xy fr f1 fresh
    by (simp add: zoneObject_create_def Let_def tx1_def del: if_split cong: if_cong)
  have "post_zone_object_tx (JInt z) a x y rot d =
      Inr (\<lparr>zo_id = ZoneObject_id_seq d + 1, zo_zoneId = z, zo_zoneInventoryId = a,
            zo_x = x, zo_y = y, zo_rotation = (if typeof_number rot then rot else JInt 0)\<rparr>,
           tx1\<lparr>ZoneObject_id_seq := ZoneObject_id_seq d + 1,
               ZoneObject := ZoneObject d @
                 [\<lparr>zo_id = ZoneObject_id_seq d + 1, zo_zoneId = z, zo_zoneInventoryId = a,
                   zo_x = x, zo_y = y,
                   zo_rotation = (if typeof_number rot then rot else JInt 0)\<rparr>]\<rparr>)"
    using zi zone a up cr by (simp add: post_zone_object_tx_def)
  then show ?thesis
    using n by (simp add: post_zone_object_def transaction_def tx1_def)
qed

lemma delete_zone_object_eq:
  assumes i: "int4 i" and obj: "zoneObject_findUnique d i = Some obj"
    and zone: "zo_zoneId obj = z"
    and zi: "zoneInventory_findUnique d (zo_zoneInventoryId obj) = Some zi"
    and a: "int4 (zo_zoneInventoryId obj)"
    and q: "int4 (zi_quantity zi)" "int4 (zi_quantity zi - 1)"
  shows "delete_zone_object d (JInt z) (JInt i) =
           (d\<lparr>ZoneObject := filter (\<lambda>r. zo_id r \<noteq> i) (ZoneObject d),
               ZoneInventory :=
                 map (\<lambda>r. if zi_id r = zo_zoneInventoryId obj
                           then r\<lparr>zi_quantity := zi_quantity r - 1\<rparr> else r)
                   (ZoneInventory d)\<rparr>,
            Response 204 NoBody)"
  using assms
  by (simp add: delete_zone_object_def delete_zone_object_tx_def transaction_def
      zoneObject_delete_def zoneInventory_update_def zoneInventory_findUnique_def)

lemma one_placed_eq:
  "post_zone_object two_zones (JInt 1) (JInt 1) (JInt 0) (JInt 0) JNull =
     (two_zones
        \<lparr>ZoneInventory :=
           [\<lparr>zi_id = 1, zi_zoneId = 1, zi_floorInventoryId = 1, zi_quantity = 4\<rparr>,
            \<lparr>zi_id = 2, zi_zoneId = 2, zi_floorInventoryId = 1, zi_quantity = 2\<rparr>],
         ZoneObject :=
           [\<lparr>zo_id = 1, zo_zoneId = 1, zo_zoneInventoryId = 1, zo_x = JInt 0, zo_y = JInt 0,
             zo_rotation = JInt 0\<rparr>],
         ZoneObject_id_seq := 1\<rparr>,
      Response 201 (ZoneObjectBody
        \<lparr>zo_id = 1, zo_zoneId = 1, zo_zoneInventoryId = 1, zo_x = JInt 0, zo_y = JInt 0,
          zo_rotation = JInt 0\<rparr>))"
  by (simp add: five_chairs_def two_zones_def prisma_defs route_defs Let_def)

lemma serve_four_placed:
  "serve five_chairs four_placed =
     five_chairs
       \<lparr>ZoneInventory :=
          [\<lparr>zi_id = 1, zi_zoneId = 1, zi_floorInventoryId = 1, zi_quantity = 8\<rparr>],
        ZoneObject :=
          [\<lparr>zo_id = 1, zo_zoneId = 1, zo_zoneInventoryId = 1, zo_x = JInt 0, zo_y = JInt 0,
             zo_rotation = JInt 0\<rparr>,
           \<lparr>zo_id = 2, zo_zoneId = 1, zo_zoneInventoryId = 1, zo_x = JInt 0, zo_y = JInt 0,
             zo_rotation = JInt 0\<rparr>,
           \<lparr>zo_id = 3, zo_zoneId = 1, zo_zoneInventoryId = 1, zo_x = JInt 0, zo_y = JInt 0,
             zo_rotation = JInt 0\<rparr>,
           \<lparr>zo_id = 4, zo_zoneId = 1, zo_zoneInventoryId = 1, zo_x = JInt 0, zo_y = JInt 0,
             zo_rotation = JInt 0\<rparr>],
        ZoneInventory_id_seq := 1,
        ZoneObject_id_seq := 4\<rparr>"
  by (simp add: five_chairs_def place_one_def four_placed_def prisma_defs route_defs Let_def)

text \<open>
  C4, as the code has it. A place request that succeeds (201) adds one to the quantity of
  the zone inventory it names and leaves every other quantity alone; a remove request
  that succeeds (204) takes one from the quantity of the zone inventory of the removed
  object and leaves every other quantity alone.
\<close>

theorem place_increments_remove_decrements:
  "(status (snd (post_zone_object d zv av x y rot)) = 201 \<longrightarrow>
      (\<exists>q. quantity_of d (int_of av) = Some q \<and>
           quantity_of (fst (post_zone_object d zv av x y rot)) (int_of av) = Some (q + 1)) \<and>
      (\<forall>j. j \<noteq> int_of av \<longrightarrow>
           quantity_of (fst (post_zone_object d zv av x y rot)) j = quantity_of d j)) \<and>
   (status (snd (delete_zone_object d zv iv)) = 204 \<longrightarrow>
      (\<exists>obj. zoneObject_findUnique d (int_of iv) = Some obj \<and>
         (\<forall>q. quantity_of d (zo_zoneInventoryId obj) = Some q \<longrightarrow>
              quantity_of (fst (delete_zone_object d zv iv)) (zo_zoneInventoryId obj)
                = Some (q - 1)) \<and>
         (\<forall>j. j \<noteq> zo_zoneInventoryId obj \<longrightarrow>
              quantity_of (fst (delete_zone_object d zv iv)) j = quantity_of d j)))"
proof (intro conjI impI)
  assume s: "status (snd (post_zone_object d zv av x y rot)) = 201"
  from place_success_D [OF s] obtain obj d'
    where tx: "post_zone_object_tx zv (int_of av) x y rot d = Inr (obj, d')"
      and res: "post_zone_object d zv av x y rot = (d', Response 201 (ZoneObjectBody obj))"
    by blast
  from post_zone_object_tx_Inr [OF tx] res obtain zi
    where zi: "zoneInventory_findUnique d (int_of av) = Some zi"
      and eq: "ZoneInventory (fst (post_zone_object d zv av x y rot)) =
        map (\<lambda>r. if zi_id r = int_of av then r\<lparr>zi_quantity := zi_quantity r + 1\<rparr> else r)
          (ZoneInventory d)"
    by auto
  show "\<exists>q. quantity_of d (int_of av) = Some q \<and>
      quantity_of (fst (post_zone_object d zv av x y rot)) (int_of av) = Some (q + 1)"
    using zi quantity_of_map [of "int_of av" "int_of av" "\<lambda>q. q + 1" "ZoneInventory d"]
    by (simp add: quantity_of_def zoneInventory_findUnique_def eq)
  show "\<forall>j. j \<noteq> int_of av \<longrightarrow>
      quantity_of (fst (post_zone_object d zv av x y rot)) j = quantity_of d j"
  proof (intro allI impI)
    fix j assume "j \<noteq> int_of av"
    then show "quantity_of (fst (post_zone_object d zv av x y rot)) j = quantity_of d j"
      using quantity_of_map [of j "int_of av" "\<lambda>q. q + 1" "ZoneInventory d"]
      by (simp add: quantity_of_def zoneInventory_findUnique_def eq option.map_ident)
  qed
next
  assume s: "status (snd (delete_zone_object d zv iv)) = 204"
  from remove_success_D [OF s] obtain u d'
    where tx: "delete_zone_object_tx zv iv d = Inr (u, d')"
      and res: "delete_zone_object d zv iv = (d', Response 204 NoBody)"
    by blast
  from delete_zone_object_tx_Inr [OF tx] res obtain obj
    where obj: "zoneObject_findUnique d (int_of iv) = Some obj"
      and eq: "ZoneInventory (fst (delete_zone_object d zv iv)) =
        map (\<lambda>r. if zi_id r = zo_zoneInventoryId obj then r\<lparr>zi_quantity := zi_quantity r - 1\<rparr>
                  else r) (ZoneInventory d)"
    by auto
  have "\<forall>q. quantity_of d (zo_zoneInventoryId obj) = Some q \<longrightarrow>
      quantity_of (fst (delete_zone_object d zv iv)) (zo_zoneInventoryId obj) = Some (q - 1)"
    using quantity_of_map [of "zo_zoneInventoryId obj" "zo_zoneInventoryId obj" "\<lambda>q. q - 1"
        "ZoneInventory d"]
    by (auto simp: quantity_of_def zoneInventory_findUnique_def eq)
  moreover have "\<forall>j. j \<noteq> zo_zoneInventoryId obj \<longrightarrow>
      quantity_of (fst (delete_zone_object d zv iv)) j = quantity_of d j"
  proof (intro allI impI)
    fix j assume "j \<noteq> zo_zoneInventoryId obj"
    then show "quantity_of (fst (delete_zone_object d zv iv)) j = quantity_of d j"
      using quantity_of_map [of j "zo_zoneInventoryId obj" "\<lambda>q. q - 1" "ZoneInventory d"]
      by (simp add: quantity_of_def zoneInventory_findUnique_def eq option.map_ident)
  qed
  ultimately show "\<exists>obj. zoneObject_findUnique d (int_of iv) = Some obj \<and>
         (\<forall>q. quantity_of d (zo_zoneInventoryId obj) = Some q \<longrightarrow>
              quantity_of (fst (delete_zone_object d zv iv)) (zo_zoneInventoryId obj)
                = Some (q - 1)) \<and>
         (\<forall>j. j \<noteq> zo_zoneInventoryId obj \<longrightarrow>
              quantity_of (fst (delete_zone_object d zv iv)) j = quantity_of d j)"
    using obj by blast
qed

theorem place_increments_remove_decrements_witness:
  "quantity_of two_zones 1 = Some 3 \<and>
   quantity_of (fst (post_zone_object two_zones (JInt 1) (JInt 1) (JInt 0) (JInt 0) JNull)) 1
     = Some 4 \<and>
   quantity_of one_placed 1 = Some 4 \<and>
   quantity_of (fst (delete_zone_object one_placed (JInt 1) (JInt 1))) 1 = Some 3"
proof -
  have p: "status (snd (post_zone_object two_zones (JInt 1) (JInt 1) (JInt 0) (JInt 0) JNull))
      = 201"
    unfolding one_placed_eq by simp
  have r: "status (snd (delete_zone_object one_placed (JInt 1) (JInt 1))) = 204"
    unfolding one_placed_def one_placed_eq
    by (simp add: five_chairs_def two_zones_def prisma_defs route_defs Let_def)
  have q0: "quantity_of two_zones 1 = Some 3"
    by (simp add: five_chairs_def two_zones_def quantity_of_def zoneInventory_findUnique_def)
  have q1: "quantity_of one_placed 1 = Some 4"
    unfolding one_placed_def one_placed_eq
    by (simp add: five_chairs_def two_zones_def quantity_of_def zoneInventory_findUnique_def)
  have o: "zoneObject_findUnique one_placed 1 =
      Some \<lparr>zo_id = 1, zo_zoneId = 1, zo_zoneInventoryId = 1, zo_x = JInt 0, zo_y = JInt 0,
          zo_rotation = JInt 0\<rparr>"
    unfolding one_placed_def one_placed_eq
    by (simp add: five_chairs_def two_zones_def zoneObject_findUnique_def)
  from place_increments_remove_decrements
    [where d = two_zones and zv = "JInt 1" and av = "JInt 1" and x = "JInt 0"
       and y = "JInt 0" and rot = JNull] p q0
  have "quantity_of
      (fst (post_zone_object two_zones (JInt 1) (JInt 1) (JInt 0) (JInt 0) JNull)) 1 = Some 4"
    by auto
  moreover from place_increments_remove_decrements
    [where d = one_placed and zv = "JInt 1" and iv = "JInt 1"] r q1 o
  have "quantity_of (fst (delete_zone_object one_placed (JInt 1) (JInt 1))) 1 = Some 3"
    by auto
  ultimately show ?thesis using q0 q1 by blast
qed

text \<open>
  C4 as stated fails: with zone inventory 1 at quantity 3, a successful place leaves it at
  4, not at 2, and the successful removal of that object leaves it at 3, not at 5.
\<close>

theorem place_remove_direction_counterexample:
  "status (snd (post_zone_object two_zones (JInt 1) (JInt 1) (JInt 0) (JInt 0) JNull)) = 201 \<and>
   quantity_of two_zones 1 = Some 3 \<and>
   quantity_of one_placed 1 \<noteq> Some (3 - 1) \<and>
   status (snd (delete_zone_object one_placed (JInt 1) (JInt 1))) = 204 \<and>
   quantity_of one_placed 1 = Some 4 \<and>
   quantity_of (fst (delete_zone_object one_placed (JInt 1) (JInt 1))) 1 \<noteq> Some (4 + 1)"
  unfolding one_placed_def one_placed_eq
  by (simp add: five_chairs_def two_zones_def prisma_defs route_defs Let_def quantity_of_def)

text \<open>
  C5, as the code has it: the place request has no capacity check. Take a state whose
  primary keys are in order, a zone inventory of this zone, ids that fit \<open>INTEGER\<close>, a zone that exists, finite \<open>x\<close> and \<open>y\<close>, a
  rotation that is finite or not a number, an object id sequence that has a next value,
  and a quantity below 2147483647, the largest \<open>INTEGER\<close>. Then the request answers 201,
  appends the object and adds one to the quantity, whatever the quantity, the count of
  the floor inventory and the number of objects already placed are.
\<close>

theorem place_without_capacity_check:
  "zoneInventory_findUnique d a = Some zi \<and> zi_zoneId zi = z \<and> z \<in> set (Zone d) \<and>
   int4 z \<and> int4 a \<and> int4 (zi_quantity zi) \<and> zi_quantity zi < 2147483647 \<and>
   int4 (ZoneObject_id_seq d + 1) \<and> Number_isFinite x \<and> Number_isFinite y \<and>
   (typeof_number rot \<longrightarrow> Number_isFinite rot) \<and> primary_keys d \<longrightarrow>
     post_zone_object d (JInt z) (JInt a) x y rot =
       (d\<lparr>ZoneInventory :=
             map (\<lambda>r. if zi_id r = a then r\<lparr>zi_quantity := zi_quantity r + 1\<rparr> else r)
               (ZoneInventory d),
           ZoneObject := ZoneObject d @
             [\<lparr>zo_id = ZoneObject_id_seq d + 1, zo_zoneId = z,
               zo_zoneInventoryId = a, zo_x = x, zo_y = y,
               zo_rotation = (if typeof_number rot then rot else JInt 0)\<rparr>],
           ZoneObject_id_seq := ZoneObject_id_seq d + 1\<rparr>,
        Response 201 (ZoneObjectBody
             \<lparr>zo_id = ZoneObject_id_seq d + 1, zo_zoneId = z,
               zo_zoneInventoryId = a, zo_x = x, zo_y = y,
               zo_rotation = (if typeof_number rot then rot else JInt 0)\<rparr>))"
proof
  assume h: "zoneInventory_findUnique d a = Some zi \<and> zi_zoneId zi = z \<and> z \<in> set (Zone d) \<and>
   int4 z \<and> int4 a \<and> int4 (zi_quantity zi) \<and> zi_quantity zi < 2147483647 \<and>
   int4 (ZoneObject_id_seq d + 1) \<and> Number_isFinite x \<and> Number_isFinite y \<and>
   (typeof_number rot \<longrightarrow> Number_isFinite rot) \<and> primary_keys d"
  then have "int4 (zi_quantity zi + 1)" by (simp add: int4_def)
  with h show "post_zone_object d (JInt z) (JInt a) x y rot =
       (d\<lparr>ZoneInventory :=
             map (\<lambda>r. if zi_id r = a then r\<lparr>zi_quantity := zi_quantity r + 1\<rparr> else r)
               (ZoneInventory d),
           ZoneObject := ZoneObject d @
             [\<lparr>zo_id = ZoneObject_id_seq d + 1, zo_zoneId = z,
               zo_zoneInventoryId = a, zo_x = x, zo_y = y,
               zo_rotation = (if typeof_number rot then rot else JInt 0)\<rparr>],
           ZoneObject_id_seq := ZoneObject_id_seq d + 1\<rparr>,
        Response 201 (ZoneObjectBody
             \<lparr>zo_id = ZoneObject_id_seq d + 1, zo_zoneId = z,
               zo_zoneInventoryId = a, zo_x = x, zo_y = y,
               zo_rotation = (if typeof_number rot then rot else JInt 0)\<rparr>))"
    using post_zone_object_eq [of d a zi z x y rot] by blast
qed

theorem place_without_capacity_check_witness:
  "length (ZoneObject (serve five_chairs four_placed)) = 4 \<and>
   post_zone_object (serve five_chairs four_placed) (JInt 1) (JInt 1) (JInt 0) (JInt 0) JNull =
     ((serve five_chairs four_placed)
        \<lparr>ZoneInventory :=
           [\<lparr>zi_id = 1, zi_zoneId = 1, zi_floorInventoryId = 1, zi_quantity = 9\<rparr>],
         ZoneObject := ZoneObject (serve five_chairs four_placed) @
           [\<lparr>zo_id = 5, zo_zoneId = 1, zo_zoneInventoryId = 1, zo_x = JInt 0, zo_y = JInt 0,
             zo_rotation = JInt 0\<rparr>],
         ZoneObject_id_seq := 5\<rparr>,
      Response 201 (ZoneObjectBody
        \<lparr>zo_id = 5, zo_zoneId = 1, zo_zoneInventoryId = 1, zo_x = JInt 0, zo_y = JInt 0,
          zo_rotation = JInt 0\<rparr>))"
proof -
  let ?zi = "\<lparr>zi_id = 1, zi_zoneId = 1, zi_floorInventoryId = 1, zi_quantity = 8\<rparr>"
  have h: "zoneInventory_findUnique (serve five_chairs four_placed) 1 = Some ?zi \<and>
      zi_zoneId ?zi = 1 \<and> 1 \<in> set (Zone (serve five_chairs four_placed)) \<and>
      int4 1 \<and> int4 1 \<and> int4 (zi_quantity ?zi) \<and> zi_quantity ?zi < 2147483647 \<and>
      int4 (ZoneObject_id_seq (serve five_chairs four_placed) + 1) \<and>
      Number_isFinite (JInt 0) \<and> Number_isFinite (JInt 0) \<and>
      (typeof_number JNull \<longrightarrow> Number_isFinite JNull) \<and>
      primary_keys (serve five_chairs four_placed)"
    unfolding serve_four_placed
    by (simp add: five_chairs_def zoneInventory_findUnique_def int4_def typeof_number_def
        primary_keys_def)
  have "post_zone_object (serve five_chairs four_placed) (JInt 1) (JInt 1) (JInt 0) (JInt 0)
      JNull =
     ((serve five_chairs four_placed)
        \<lparr>ZoneInventory :=
           map (\<lambda>r. if zi_id r = 1 then r\<lparr>zi_quantity := zi_quantity r + 1\<rparr> else r)
             (ZoneInventory (serve five_chairs four_placed)),
         ZoneObject := ZoneObject (serve five_chairs four_placed) @
           [\<lparr>zo_id = ZoneObject_id_seq (serve five_chairs four_placed) + 1, zo_zoneId = 1,
             zo_zoneInventoryId = 1, zo_x = JInt 0, zo_y = JInt 0,
             zo_rotation = (if typeof_number JNull then JNull else JInt 0)\<rparr>],
         ZoneObject_id_seq := ZoneObject_id_seq (serve five_chairs four_placed) + 1\<rparr>,
      Response 201 (ZoneObjectBody
        \<lparr>zo_id = ZoneObject_id_seq (serve five_chairs four_placed) + 1, zo_zoneId = 1,
          zo_zoneInventoryId = 1, zo_x = JInt 0, zo_y = JInt 0,
          zo_rotation = (if typeof_number JNull then JNull else JInt 0)\<rparr>))"
    using place_without_capacity_check
      [where d = "serve five_chairs four_placed" and a = 1 and zi = ?zi and z = 1
         and x = "JInt 0" and y = "JInt 0" and rot = JNull] h
    by blast
  then show ?thesis
    unfolding serve_four_placed
    by (simp add: five_chairs_def typeof_number_def)
qed

text \<open>
  C5 as stated fails: after zone 1 has taken four chairs and placed four objects, a
  fifth place request answers 201 and there are five objects.
\<close>

theorem place_capacity_limit_counterexample:
  "map status (answers five_chairs four_placed) = [201, 201, 201, 201, 201] \<and>
   length (ZoneObject (serve five_chairs four_placed)) = 4 \<and>
   status (snd (handle (serve five_chairs four_placed) place_one)) = 201 \<and>
   length (ZoneObject (fst (handle (serve five_chairs four_placed) place_one))) = 5"
proof -
  have "map status (answers five_chairs four_placed) = [201, 201, 201, 201, 201]"
    by (simp add: five_chairs_def place_one_def four_placed_def prisma_defs route_defs Let_def)
  moreover have "status (snd (handle (serve five_chairs four_placed) place_one)) = 201 \<and>
      length (ZoneObject (fst (handle (serve five_chairs four_placed) place_one))) = 5"
    unfolding serve_four_placed
    by (simp add: five_chairs_def place_one_def four_placed_def prisma_defs route_defs Let_def)
  moreover have "length (ZoneObject (serve five_chairs four_placed)) = 4"
    unfolding serve_four_placed by simp
  ultimately show ?thesis by blast
qed

text \<open>
  C10. In a state whose primary keys are in order, a place request that succeeds,
  followed at once by the removal of the object it created (same zone), answers 204 and
  gives back the state before the place request but for the id sequence of the objects,
  which has moved on by one. The zone inventories, with their quantities, and the
  objects are those from before.
\<close>

theorem place_remove_roundtrip:
  assumes pk: "primary_keys d"
    and place: "post_zone_object d zv av x y rot = (d1, Response 201 (ZoneObjectBody obj))"
  shows "delete_zone_object d1 zv (JInt (zo_id obj)) =
           (d\<lparr>ZoneObject_id_seq := ZoneObject_id_seq d + 1\<rparr>, Response 204 NoBody) \<and>
         ZoneInventory (fst (delete_zone_object d1 zv (JInt (zo_id obj)))) = ZoneInventory d \<and>
         ZoneObject (fst (delete_zone_object d1 zv (JInt (zo_id obj)))) = ZoneObject d"
proof -
  from place have "status (snd (post_zone_object d zv av x y rot)) = 201" by simp
  from place_success_D [OF this] place
  have tx: "post_zone_object_tx zv (int_of av) x y rot d = Inr (obj, d1)"
    by auto
  let ?a = "int_of av"
  let ?new = "ZoneObject_id_seq d + 1"
  from post_zone_object_tx_Inr [OF tx] obtain zi
    where zi: "zoneInventory_findUnique d ?a = Some zi"
      and zone: "JInt (zi_zoneId zi) = zv"
      and a: "int4 ?a" and q: "int4 (zi_quantity zi)" "int4 (zi_quantity zi + 1)"
      and new: "int4 ?new"
      and obj: "obj = \<lparr>zo_id = ?new, zo_zoneId = zi_zoneId zi, zo_zoneInventoryId = ?a,
                    zo_x = x, zo_y = y,
                    zo_rotation = (if typeof_number rot then rot else JInt 0)\<rparr>"
      and d1: "d1 = d\<lparr>ZoneInventory :=
                 map (\<lambda>r. if zi_id r = ?a then r\<lparr>zi_quantity := zi_quantity r + 1\<rparr> else r)
                   (ZoneInventory d),
               ZoneObject := ZoneObject d @ [obj],
               ZoneObject_id_seq := ?new\<rparr>"
    by blast
  from pk have old: "\<forall>r \<in> set (ZoneObject d). zo_id r \<noteq> ?new"
    by (fastforce simp: primary_keys_def)
  have found: "zoneObject_findUnique d1 (zo_id obj) = Some obj"
    using old find_fresh_append [of "ZoneObject d" "\<lambda>r. zo_id r = ?new" obj]
    by (simp add: zoneObject_findUnique_def d1 obj)
  have rest: "filter (\<lambda>r. zo_id r \<noteq> zo_id obj) (ZoneObject d1) = ZoneObject d"
    using old filter_fresh_append [of "ZoneObject d" "\<lambda>r. zo_id r \<noteq> ?new" obj]
    by (simp add: d1 obj)
  have restored: "map (\<lambda>r. if zi_id r = zo_zoneInventoryId obj
                        then r\<lparr>zi_quantity := zi_quantity r - 1\<rparr> else r)
                (ZoneInventory d1) = ZoneInventory d"
    using map_inc_dec [of ?a "ZoneInventory d"] by (simp add: d1 obj del: map_map)
  have zi1: "zoneInventory_findUnique d1 (zo_zoneInventoryId obj) =
      Some (zi\<lparr>zi_quantity := zi_quantity zi + 1\<rparr>)"
  proof -
    from zi have "zi_id zi = ?a"
      by (auto simp: zoneInventory_findUnique_def dest: find_Some_iff [THEN iffD1])
    with zi show ?thesis
      by (simp add: zoneInventory_findUnique_def d1 obj find_map_update)
  qed
  have "delete_zone_object d1 (JInt (zi_zoneId zi)) (JInt (zo_id obj)) =
          (d1\<lparr>ZoneObject := filter (\<lambda>r. zo_id r \<noteq> zo_id obj) (ZoneObject d1),
              ZoneInventory :=
                map (\<lambda>r. if zi_id r = zo_zoneInventoryId obj
                          then r\<lparr>zi_quantity := zi_quantity r - 1\<rparr> else r)
                  (ZoneInventory d1)\<rparr>,
           Response 204 NoBody)"
  proof (rule delete_zone_object_eq [OF _ found _ zi1])
    show "int4 (zo_id obj)" using new by (simp add: obj)
    show "zo_zoneId obj = zi_zoneId zi" by (simp add: obj)
    show "int4 (zo_zoneInventoryId obj)" using a by (simp add: obj)
    show "int4 (zi_quantity (zi\<lparr>zi_quantity := zi_quantity zi + 1\<rparr>))" using q by simp
    show "int4 (zi_quantity (zi\<lparr>zi_quantity := zi_quantity zi + 1\<rparr>) - 1)" using q by simp
  qed
  then have "delete_zone_object d1 zv (JInt (zo_id obj)) =
          (d1\<lparr>ZoneObject := ZoneObject d, ZoneInventory := ZoneInventory d\<rparr>,
           Response 204 NoBody)"
    unfolding rest restored using zone by simp
  moreover have "d1\<lparr>ZoneObject := ZoneObject d, ZoneInventory := ZoneInventory d\<rparr> =
      d\<lparr>ZoneObject_id_seq := ?new\<rparr>"
    by (simp add: d1)
  ultimately show ?thesis by simp
qed

theorem place_remove_roundtrip_witness:
  "delete_zone_object one_placed (JInt 1) (JInt 1) =
     (two_zones\<lparr>ZoneObject_id_seq := 1\<rparr>, Response 204 NoBody) \<and>
   ZoneInventory (fst (delete_zone_object one_placed (JInt 1) (JInt 1))) =
     ZoneInventory two_zones \<and>
   ZoneObject (fst (delete_zone_object one_placed (JInt 1) (JInt 1))) = []"
proof -
  let ?obj = "\<lparr>zo_id = 1, zo_zoneId = 1, zo_zoneInventoryId = 1, zo_x = JInt 0,
               zo_y = JInt 0, zo_rotation = JInt 0\<rparr>"
  have pk: "primary_keys two_zones"
    by (simp add: five_chairs_def two_zones_def primary_keys_def)
  have place: "post_zone_object two_zones (JInt 1) (JInt 1) (JInt 0) (JInt 0) JNull =
      (one_placed, Response 201 (ZoneObjectBody ?obj))"
    unfolding one_placed_def one_placed_eq by simp
  from place_remove_roundtrip [OF pk place]
  show ?thesis by (simp add: five_chairs_def two_zones_def)
qed

text \<open>
  C7 fails on the code: attach with quantity 0, place an object (quantity 1), set the
  quantity to 0, remove the object. Every request succeeds and the quantity ends at -1.
\<close>

theorem remove_drives_quantity_negative:
  "map status (answers five_chairs drift_requests) = [201, 201, 200, 204] \<and>
   quantity_of (serve five_chairs drift_requests) 1 = Some (- 1) \<and>
   map zi_quantity (ZoneInventory (serve five_chairs drift_requests)) = [- 1]"
  by (simp add: five_chairs_def place_one_def drift_requests_def prisma_defs route_defs
      Let_def quantity_of_def)

subsection \<open>Floor inventory: count, usage, deletion\<close>

lemma patch_floor_inventory_eq:
  assumes "0 \<le> c" and "int4 c" and "int4 i"
  shows "patch_floor_inventory d (JInt i) (JInt c) =
    (case floorInventory_findUnique d i of
       None \<Rightarrow> (d, Response 404 (ErrorBody (Text ''Inventory item not found'')))
     | Some fi \<Rightarrow>
         (d\<lparr>FloorInventory :=
              map (\<lambda>r. if fi_id r = i then r\<lparr>fi_count := c\<rparr> else r) (FloorInventory d)\<rparr>,
          Response 200 (FloorInventoryBody (fi\<lparr>fi_count := c\<rparr>)
                          (catalog_findUnique d (fi_catalogId fi)))))"
  using assms
  by (simp add: patch_floor_inventory_def floorInventory_update_def catalog_findUnique_def
      split: option.splits)

text \<open>
  C8, as the code has it. Update count with an id and a count \<open>c \<ge> 0\<close> that fit
  \<open>INTEGER\<close> answers 404 exactly when no floor inventory has the id, and then changes
  nothing. When the floor inventory is there it answers 200 and sets the count to \<open>c\<close>,
  leaving the zone inventories as they are: nothing compares \<open>c\<close> with what is attached,
  so a count below the sum of the attached quantities is accepted and leaves the floor
  inventory overcommitted.
\<close>

theorem update_count_unchecked:
  "0 \<le> c \<and> int4 c \<and> int4 i \<longrightarrow>
     (status (snd (patch_floor_inventory d (JInt i) (JInt c))) = 404
        \<longleftrightarrow> floorInventory_findUnique d i = None) \<and>
     (floorInventory_findUnique d i = None \<longrightarrow>
        fst (patch_floor_inventory d (JInt i) (JInt c)) = d) \<and>
     (\<forall>fi. floorInventory_findUnique d i = Some fi \<longrightarrow>
        status (snd (patch_floor_inventory d (JInt i) (JInt c))) = 200 \<and>
        floorInventory_findUnique (fst (patch_floor_inventory d (JInt i) (JInt c))) i
          = Some (fi\<lparr>fi_count := c\<rparr>) \<and>
        ZoneInventory (fst (patch_floor_inventory d (JInt i) (JInt c))) = ZoneInventory d \<and>
        (c < used d i \<longrightarrow> \<not> no_overcommit (fst (patch_floor_inventory d (JInt i) (JInt c)))))"
proof (intro impI)
  assume h: "0 \<le> c \<and> int4 c \<and> int4 i"
  then have eq: "patch_floor_inventory d (JInt i) (JInt c) =
    (case floorInventory_findUnique d i of
       None \<Rightarrow> (d, Response 404 (ErrorBody (Text ''Inventory item not found'')))
     | Some fi \<Rightarrow>
         (d\<lparr>FloorInventory :=
              map (\<lambda>r. if fi_id r = i then r\<lparr>fi_count := c\<rparr> else r) (FloorInventory d)\<rparr>,
          Response 200 (FloorInventoryBody (fi\<lparr>fi_count := c\<rparr>)
                          (catalog_findUnique d (fi_catalogId fi)))))"
    using patch_floor_inventory_eq [of c i d] by blast
  show "(status (snd (patch_floor_inventory d (JInt i) (JInt c))) = 404
        \<longleftrightarrow> floorInventory_findUnique d i = None) \<and>
     (floorInventory_findUnique d i = None \<longrightarrow>
        fst (patch_floor_inventory d (JInt i) (JInt c)) = d) \<and>
     (\<forall>fi. floorInventory_findUnique d i = Some fi \<longrightarrow>
        status (snd (patch_floor_inventory d (JInt i) (JInt c))) = 200 \<and>
        floorInventory_findUnique (fst (patch_floor_inventory d (JInt i) (JInt c))) i
          = Some (fi\<lparr>fi_count := c\<rparr>) \<and>
        ZoneInventory (fst (patch_floor_inventory d (JInt i) (JInt c))) = ZoneInventory d \<and>
        (c < used d i \<longrightarrow> \<not> no_overcommit (fst (patch_floor_inventory d (JInt i) (JInt c)))))"
  proof (cases "floorInventory_findUnique d i")
    case None
    with eq show ?thesis by simp
  next
    case (Some fi)
    let ?d' = "fst (patch_floor_inventory d (JInt i) (JInt c))"
    from Some have id: "fi_id fi = i"
      by (auto simp: floorInventory_findUnique_def find_Some_iff)
    from Some eq have d': "?d' = d\<lparr>FloorInventory :=
        map (\<lambda>r. if fi_id r = i then r\<lparr>fi_count := c\<rparr> else r) (FloorInventory d)\<rparr>"
      and st: "status (snd (patch_floor_inventory d (JInt i) (JInt c))) = 200"
      by simp_all
    have found: "floorInventory_findUnique ?d' i = Some (fi\<lparr>fi_count := c\<rparr>)"
      using Some id by (simp add: d' floorInventory_findUnique_def find_fi_map)
    have zi: "ZoneInventory ?d' = ZoneInventory d" by (simp add: d')
    have "\<not> no_overcommit ?d'" if lt: "c < used d i"
    proof -
      from found have "fi\<lparr>fi_count := c\<rparr> \<in> set (FloorInventory ?d')"
        by (auto simp: floorInventory_findUnique_def find_Some_iff in_set_conv_nth)
      moreover have "used ?d' i = used d i" by (simp add: used_def zi)
      ultimately have "\<exists>x \<in> set (FloorInventory ?d'). \<not> used ?d' (fi_id x) \<le> fi_count x"
        using lt id by (intro bexI [of _ "fi\<lparr>fi_count := c\<rparr>"]) simp_all
      then show ?thesis by (simp add: no_overcommit_def)
    qed
    with Some st found zi show ?thesis by simp
  qed
qed

theorem update_count_unchecked_witness:
  "used two_zones 1 = 5 \<and>
   status (snd (patch_floor_inventory two_zones (JInt 1) (JInt 2))) = 200 \<and>
   floorInventory_findUnique lowered 1 =
     Some \<lparr>fi_id = 1, fi_floorId = 1, fi_catalogId = ''chair'', fi_count = 2\<rparr> \<and>
   \<not> no_overcommit lowered \<and>
   status (snd (patch_floor_inventory two_zones (JInt 7) (JInt 2))) = 404"
proof -
  let ?fi = "\<lparr>fi_id = 1, fi_floorId = 1, fi_catalogId = ''chair'', fi_count = 5\<rparr>"
  have r: "(0::int) \<le> 2 \<and> int4 2 \<and> int4 1" "(0::int) \<le> 2 \<and> int4 2 \<and> int4 7"
    by (simp_all add: int4_def)
  have f: "floorInventory_findUnique two_zones 1 = Some ?fi"
    by (simp add: five_chairs_def two_zones_def floorInventory_findUnique_def)
  have n: "floorInventory_findUnique two_zones 7 = None"
    by (simp add: five_chairs_def two_zones_def floorInventory_findUnique_def)
  have u: "used two_zones 1 = 5"
    by (simp add: five_chairs_def two_zones_def used_def)
  from update_count_unchecked [where c = 2 and d = two_zones and i = 1] f u r(1)
  have "status (snd (patch_floor_inventory two_zones (JInt 1) (JInt 2))) = 200 \<and>
      floorInventory_findUnique lowered 1 = Some (?fi\<lparr>fi_count := 2\<rparr>) \<and>
      \<not> no_overcommit lowered"
    unfolding lowered_def by auto
  moreover from update_count_unchecked [where c = 2 and d = two_zones and i = 7] n r(2)
  have "status (snd (patch_floor_inventory two_zones (JInt 7) (JInt 2))) = 404"
    by auto
  ultimately show ?thesis using u by simp
qed

lemma serve_crowded_requests:
  "serve five_chairs crowded_requests =
     five_chairs
       \<lparr>FloorInventory :=
          [\<lparr>fi_id = 1, fi_floorId = 1, fi_catalogId = ''chair'', fi_count = 2147483647\<rparr>],
        ZoneInventory :=
          [\<lparr>zi_id = 1, zi_zoneId = 1, zi_floorInventoryId = 1, zi_quantity = 2147483646\<rparr>,
           \<lparr>zi_id = 2, zi_zoneId = 2, zi_floorInventoryId = 1, zi_quantity = 3\<rparr>],
        ZoneObject :=
          [\<lparr>zo_id = 1, zo_zoneId = 2, zo_zoneInventoryId = 2, zo_x = JInt 0, zo_y = JInt 0,
             zo_rotation = JInt 0\<rparr>,
           \<lparr>zo_id = 2, zo_zoneId = 2, zo_zoneInventoryId = 2, zo_x = JInt 0, zo_y = JInt 0,
             zo_rotation = JInt 0\<rparr>],
        ZoneInventory_id_seq := 2,
        ZoneObject_id_seq := 2\<rparr>"
  by (simp add: five_chairs_def crowded_requests_def prisma_defs route_defs Let_def)

text \<open>
  C8 as stated fails. The floor inventory 1 is there and the count 2147483648 is not
  negative, but it does not fit \<open>INTEGER\<close>: the update raises, the request answers 500
  and the count stays what it was. After the requests of \<open>crowded_requests\<close>, which all
  succeed, 2147483649 chairs are attached, so this count is also strictly below the sum
  of the attached quantities.
\<close>

theorem update_count_counterexample:
  "floorInventory_findUnique five_chairs 1 =
     Some \<lparr>fi_id = 1, fi_floorId = 1, fi_catalogId = ''chair'', fi_count = 5\<rparr> \<and>
   patch_floor_inventory five_chairs (JInt 1) (JInt 2147483648) =
     (five_chairs, Response 500 Unhandled) \<and>
   map status (answers five_chairs crowded_requests) = [200, 201, 201, 201, 201] \<and>
   used (serve five_chairs crowded_requests) 1 = 2147483649 \<and>
   floorInventory_findUnique (serve five_chairs crowded_requests) 1 =
     Some \<lparr>fi_id = 1, fi_floorId = 1, fi_catalogId = ''chair'', fi_count = 2147483647\<rparr> \<and>
   patch_floor_inventory (serve five_chairs crowded_requests) (JInt 1) (JInt 2147483648) =
     (serve five_chairs crowded_requests, Response 500 Unhandled)"
proof -
  have "floorInventory_findUnique five_chairs 1 =
     Some \<lparr>fi_id = 1, fi_floorId = 1, fi_catalogId = ''chair'', fi_count = 5\<rparr> \<and>
   patch_floor_inventory five_chairs (JInt 1) (JInt 2147483648) =
     (five_chairs, Response 500 Unhandled)"
    by (simp add: five_chairs_def prisma_defs route_defs)
  moreover have "map status (answers five_chairs crowded_requests) = [200, 201, 201, 201, 201]"
    by (simp add: five_chairs_def crowded_requests_def prisma_defs route_defs Let_def)
  moreover have "used (serve five_chairs crowded_requests) 1 = 2147483649 \<and>
   floorInventory_findUnique (serve five_chairs crowded_requests) 1 =
     Some \<lparr>fi_id = 1, fi_floorId = 1, fi_catalogId = ''chair'', fi_count = 2147483647\<rparr> \<and>
   patch_floor_inventory (serve five_chairs crowded_requests) (JInt 1) (JInt 2147483648) =
     (serve five_chairs crowded_requests, Response 500 Unhandled)"
    unfolding serve_crowded_requests
    by (simp add: five_chairs_def prisma_defs route_defs used_def)
  ultimately show ?thesis by blast
qed

lemma usage_of_fields:
  "u_id (usage_of d fi) = fi_id fi \<and> u_count (usage_of d fi) = fi_count fi \<and>
   u_used (usage_of d fi) = used d (fi_id fi) \<and>
   u_available (usage_of d fi) = max (fi_count fi - used d (fi_id fi)) 0"
  by (simp add: usage_of_def Let_def nullish0_aggregate used_def)

text \<open>
  C9. The usage route changes no state, and asked twice in a row it gives the same answer.
  For an integer floor id it answers 200 with one entry per floor inventory of the floor,
  and the entry of a floor inventory holds its count, \<open>used\<close> (the sum of the attached
  quantities) and \<open>available = max (count - used) 0\<close>, which is never negative.
\<close>

theorem compute_usage:
  "fst (get_inventory_with_usage d v) = d \<and>
   get_inventory_with_usage (fst (get_inventory_with_usage d v)) v =
     get_inventory_with_usage d v \<and>
   (\<exists>us. snd (get_inventory_with_usage d (JInt fl)) = Response 200 (UsageBody us) \<and>
         set us = usage_of d ` {fi \<in> set (FloorInventory d). fi_floorId fi = fl} \<and>
         length us = length (filter (\<lambda>fi. fi_floorId fi = fl) (FloorInventory d))) \<and>
   u_id (usage_of d fi) = fi_id fi \<and>
   u_count (usage_of d fi) = fi_count fi \<and>
   u_used (usage_of d fi) = used d (fi_id fi) \<and>
   u_available (usage_of d fi) = max (fi_count fi - used d (fi_id fi)) 0 \<and>
   0 \<le> u_available (usage_of d fi)"
proof -
  have pure: "fst (get_inventory_with_usage d v) = d"
    by (simp add: get_inventory_with_usage_def Let_def)
  have "snd (get_inventory_with_usage d (JInt fl)) =
      Response 200 (UsageBody (map (usage_of d) (floorInventory_findMany_floor d fl)))"
    by (simp add: get_inventory_with_usage_def Let_def)
  moreover have "set (map (usage_of d) (floorInventory_findMany_floor d fl)) =
      usage_of d ` {fi \<in> set (FloorInventory d). fi_floorId fi = fl}"
    by (simp add: floorInventory_findMany_floor_def)
  moreover have "length (map (usage_of d) (floorInventory_findMany_floor d fl)) =
      length (filter (\<lambda>fi. fi_floorId fi = fl) (FloorInventory d))"
    by (simp add: floorInventory_findMany_floor_def)
  ultimately have ex: "\<exists>us. snd (get_inventory_with_usage d (JInt fl))
        = Response 200 (UsageBody us) \<and>
      set us = usage_of d ` {fi \<in> set (FloorInventory d). fi_floorId fi = fl} \<and>
      length us = length (filter (\<lambda>fi. fi_floorId fi = fl) (FloorInventory d))"
    by blast
  from pure ex usage_of_fields [of d fi] show ?thesis by simp
qed

theorem compute_usage_witness:
  "get_inventory_with_usage lowered (JInt 1) =
     (lowered,
      Response 200 (UsageBody
        [\<lparr>u_id = 1, u_floorId = 1, u_catalogId = ''chair'', u_count = 2, u_used = 5,
          u_available = 0, u_catalog = Some chair\<rparr>])) \<and>
   u_available (usage_of lowered
       \<lparr>fi_id = 1, fi_floorId = 1, fi_catalogId = ''chair'', fi_count = 2\<rparr>) = 0 \<and>
   get_inventory_with_usage (fst (get_inventory_with_usage lowered (JInt 1))) (JInt 1) =
     get_inventory_with_usage lowered (JInt 1)"
proof -
  let ?fi = "\<lparr>fi_id = 1, fi_floorId = 1, fi_catalogId = ''chair'', fi_count = 2\<rparr>"
  have low: "lowered = two_zones\<lparr>FloorInventory := [?fi]\<rparr>"
    by (simp add: lowered_def five_chairs_def two_zones_def prisma_defs route_defs)
  have u: "used lowered 1 = 5"
    by (simp add: low five_chairs_def two_zones_def used_def)
  note T = compute_usage [where d = lowered and v = "JInt 1" and fi = ?fi]
  from T u have "u_available (usage_of lowered ?fi) = 0" by simp
  moreover from T
  have "get_inventory_with_usage (fst (get_inventory_with_usage lowered (JInt 1))) (JInt 1) =
      get_inventory_with_usage lowered (JInt 1)"
    by blast
  moreover have "get_inventory_with_usage lowered (JInt 1) =
     (lowered,
      Response 200 (UsageBody
        [\<lparr>u_id = 1, u_floorId = 1, u_catalogId = ''chair'', u_count = 2, u_used = 5,
          u_available = 0, u_catalog = Some chair\<rparr>]))"
    unfolding low
    by (simp add: five_chairs_def two_zones_def prisma_defs route_defs Let_def usage_of_def
        floorInventory_findMany_floor_def catalog_displayName_def chair_def)
  ultimately show ?thesis by blast
qed

lemma furnished_eq:
  "furnished =
     two_zones
       \<lparr>ZoneInventory :=
          [\<lparr>zi_id = 1, zi_zoneId = 1, zi_floorInventoryId = 1, zi_quantity = 4\<rparr>,
           \<lparr>zi_id = 2, zi_zoneId = 2, zi_floorInventoryId = 1, zi_quantity = 3\<rparr>],
        ZoneObject :=
          [\<lparr>zo_id = 1, zo_zoneId = 1, zo_zoneInventoryId = 1, zo_x = JInt 0, zo_y = JInt 0,
             zo_rotation = JInt 0\<rparr>,
           \<lparr>zo_id = 2, zo_zoneId = 2, zo_zoneInventoryId = 2, zo_x = JInt 0, zo_y = JInt 0,
             zo_rotation = JInt 0\<rparr>],
        ZoneObject_id_seq := 2\<rparr>"
  by (simp add: furnished_def five_chairs_def two_zones_def prisma_defs route_defs Let_def)

lemma delete_floor_inventory_present:
  assumes "floorInventory_findUnique d i = Some fi" and "int4 i"
  shows "delete_floor_inventory d (JInt i) =
    (d\<lparr>FloorInventory := filter (\<lambda>r. fi_id r \<noteq> i) (FloorInventory d),
       ZoneInventory := filter (\<lambda>r. zi_floorInventoryId r \<noteq> i) (ZoneInventory d),
       ZoneObject :=
         filter (\<lambda>ob. zo_zoneInventoryId ob \<notin>
                   zi_id ` {r \<in> set (ZoneInventory d). zi_floorInventoryId r = i})
           (ZoneObject d)\<rparr>,
     Response 204 NoBody)"
  using assms
  by (simp add: delete_floor_inventory_def delete_floor_inventory_cleanup_def
      floorInventory_delete_def zoneInventory_deleteMany_def floorInventory_findUnique_def
      Let_def)

lemma delete_floor_inventory_absent:
  assumes "references_ok d" and "floorInventory_findUnique d i = None" and "int4 i"
  shows "delete_floor_inventory d (JInt i) =
    (d, Response 404 (ErrorBody (Text ''Inventory item not found'')))"
proof -
  from assms have "\<forall>r \<in> set (ZoneInventory d). zi_floorInventoryId r \<noteq> i"
    by (auto simp: references_ok_def)
  then have "filter (\<lambda>r. zi_floorInventoryId r = i) (ZoneInventory d) = []"
    and "filter (\<lambda>r. zi_floorInventoryId r \<noteq> i) (ZoneInventory d) = ZoneInventory d"
    by (simp_all add: filter_empty_conv filter_id_conv)
  with assms(2,3) show ?thesis
    by (simp add: delete_floor_inventory_def delete_floor_inventory_cleanup_def
        floorInventory_delete_def zoneInventory_deleteMany_def floorInventory_findUnique_def
        Let_def)
qed

lemma delete_floor_inventory_no_orphans:
  assumes ok: "references_ok d" and fi: "floorInventory_findUnique d i = Some fi"
    and i: "int4 i"
  shows "references_ok (fst (delete_floor_inventory d (JInt i))) \<and>
         floorInventory_findUnique (fst (delete_floor_inventory d (JInt i))) i = None \<and>
         (\<forall>r \<in> set (ZoneInventory (fst (delete_floor_inventory d (JInt i)))).
             zi_floorInventoryId r \<noteq> i)"
proof -
  let ?d2 = "fst (delete_floor_inventory d (JInt i))"
  have fl: "FloorInventory ?d2 = filter (\<lambda>r. fi_id r \<noteq> i) (FloorInventory d)"
    and zi: "ZoneInventory ?d2 = filter (\<lambda>r. zi_floorInventoryId r \<noteq> i) (ZoneInventory d)"
    and zo: "ZoneObject ?d2 = filter (\<lambda>ob. zo_zoneInventoryId ob \<notin>
                   zi_id ` {r \<in> set (ZoneInventory d). zi_floorInventoryId r = i})
           (ZoneObject d)"
    and zn: "Zone ?d2 = Zone d"
    by (simp_all add: delete_floor_inventory_present [OF fi i])
  have a: "floorInventory_findUnique ?d2 (zi_floorInventoryId r) \<noteq> None \<and>
           zi_zoneId r \<in> set (Zone ?d2)"
    if "r \<in> set (ZoneInventory ?d2)" for r
  proof -
    from that have r: "r \<in> set (ZoneInventory d)" and ne: "zi_floorInventoryId r \<noteq> i"
      by (simp_all add: zi)
    from ok r obtain x where "x \<in> set (FloorInventory d)" "fi_id x = zi_floorInventoryId r"
      by (auto simp: references_ok_def floorInventory_findUnique_def find_None_iff)
    with ne have "x \<in> set (FloorInventory ?d2)" by (simp add: fl)
    with \<open>fi_id x = zi_floorInventoryId r\<close>
    have "floorInventory_findUnique ?d2 (zi_floorInventoryId r) \<noteq> None"
      by (auto simp: floorInventory_findUnique_def find_None_iff)
    moreover from ok r have "zi_zoneId r \<in> set (Zone d)"
      by (simp add: references_ok_def)
    ultimately show ?thesis by (simp add: zn)
  qed
  have b: "zoneInventory_findUnique ?d2 (zo_zoneInventoryId ob) \<noteq> None \<and>
           zo_zoneId ob \<in> set (Zone ?d2)"
    if "ob \<in> set (ZoneObject ?d2)" for ob
  proof -
    from that have ob: "ob \<in> set (ZoneObject d)"
      and keep: "zo_zoneInventoryId ob \<notin>
          zi_id ` {r \<in> set (ZoneInventory d). zi_floorInventoryId r = i}"
      by (simp_all add: zo)
    from ok ob obtain x where x: "x \<in> set (ZoneInventory d)" "zi_id x = zo_zoneInventoryId ob"
      by (auto simp: references_ok_def zoneInventory_findUnique_def find_None_iff)
    with keep have "zi_floorInventoryId x \<noteq> i" by force
    with x have "x \<in> set (ZoneInventory ?d2)" by (simp add: zi)
    with x(2) have "zoneInventory_findUnique ?d2 (zo_zoneInventoryId ob) \<noteq> None"
      by (auto simp: zoneInventory_findUnique_def find_None_iff)
    moreover from ok ob have "zo_zoneId ob \<in> set (Zone d)"
      by (simp add: references_ok_def)
    ultimately show ?thesis by (simp add: zn)
  qed
  have c: "floorInventory_findUnique ?d2 i = None"
    by (simp add: floorInventory_findUnique_def find_None_iff fl)
  have e: "\<forall>r \<in> set (ZoneInventory ?d2). zi_floorInventoryId r \<noteq> i"
    by (simp add: zi)
  from a b c e show ?thesis
    unfolding references_ok_def by blast
qed

text \<open>
  C6 fails on the code in its last part. Served alone, the delete route ends where the
  claim says: all dependent rows are gone after a success, and nothing changes when the
  id is absent and the references are in order. But the handler does not open a
  transaction: \<open>zoneInventory.deleteMany\<close> commits first, and
  in the state it commits the floor inventory is still there while its two zone
  inventories and their two objects are gone; \<open>floorInventory.delete\<close> runs after that
  as a statement of its own.
\<close>

theorem delete_stock_commits_cleanup_first:
  "length (ZoneInventory furnished) = 2 \<and> length (ZoneObject furnished) = 2 \<and>
   delete_floor_inventory_cleanup furnished 1 =
     furnished\<lparr>ZoneInventory := [], ZoneObject := []\<rparr> \<and>
   FloorInventory (delete_floor_inventory_cleanup furnished 1) =
     [\<lparr>fi_id = 1, fi_floorId = 1, fi_catalogId = ''chair'', fi_count = 5\<rparr>] \<and>
   delete_floor_inventory furnished (JInt 1) =
     (furnished\<lparr>FloorInventory := [], ZoneInventory := [], ZoneObject := []\<rparr>,
      Response 204 NoBody)"
  unfolding furnished_eq
  by (simp add: five_chairs_def two_zones_def prisma_defs route_defs Let_def)

text \<open>
  Served alone, the delete route for a floor inventory that is there leaves no row
  behind that references it, and the references of the remaining rows stay in order.
\<close>

theorem delete_stock_leaves_no_orphans:
  assumes "references_ok d" and "floorInventory_findUnique d i = Some fi" and "int4 i"
  shows "status (snd (delete_floor_inventory d (JInt i))) = 204 \<and>
         references_ok (fst (delete_floor_inventory d (JInt i))) \<and>
         floorInventory_findUnique (fst (delete_floor_inventory d (JInt i))) i = None \<and>
         (\<forall>r \<in> set (ZoneInventory (fst (delete_floor_inventory d (JInt i)))).
             zi_floorInventoryId r \<noteq> i)"
  using delete_floor_inventory_no_orphans [OF assms]
    delete_floor_inventory_present [OF assms(2,3)]
  by simp

theorem delete_stock_leaves_no_orphans_witness:
  "references_ok furnished \<and>
   status (snd (delete_floor_inventory furnished (JInt 1))) = 204 \<and>
   references_ok (fst (delete_floor_inventory furnished (JInt 1))) \<and>
   floorInventory_findUnique (fst (delete_floor_inventory furnished (JInt 1))) 1 = None \<and>
   ZoneInventory (fst (delete_floor_inventory furnished (JInt 1))) = [] \<and>
   ZoneObject (fst (delete_floor_inventory furnished (JInt 1))) = []"
proof -
  have ok: "references_ok furnished"
    unfolding furnished_eq
    by (simp add: five_chairs_def two_zones_def references_ok_def floorInventory_findUnique_def
        zoneInventory_findUnique_def)
  have fi: "floorInventory_findUnique furnished 1 =
      Some \<lparr>fi_id = 1, fi_floorId = 1, fi_catalogId = ''chair'', fi_count = 5\<rparr>"
    unfolding furnished_eq by (simp add: five_chairs_def two_zones_def floorInventory_findUnique_def)
  have i: "int4 1" by (simp add: int4_def)
  have "ZoneInventory (fst (delete_floor_inventory furnished (JInt 1))) = [] \<and>
      ZoneObject (fst (delete_floor_inventory furnished (JInt 1))) = []"
    unfolding furnished_eq by (simp add: five_chairs_def two_zones_def prisma_defs route_defs Let_def)
  with delete_stock_leaves_no_orphans [OF ok fi i] ok show ?thesis by blast
qed

text \<open>
  With the references in order, the delete route for an id that fits \<open>INTEGER\<close> and that
  no floor inventory has answers 404 and changes nothing.
\<close>

theorem delete_stock_absent_changes_nothing:
  assumes "references_ok d" and "floorInventory_findUnique d i = None" and "int4 i"
  shows "delete_floor_inventory d (JInt i) =
           (d, Response 404 (ErrorBody (Text ''Inventory item not found'')))"
  using assms by (rule delete_floor_inventory_absent)

theorem delete_stock_absent_changes_nothing_witness:
  "delete_floor_inventory two_zones (JInt 7) =
     (two_zones, Response 404 (ErrorBody (Text ''Inventory item not found'')))"
proof -
  have "references_ok two_zones"
    by (simp add: five_chairs_def two_zones_def references_ok_def floorInventory_findUnique_def)
  moreover have "floorInventory_findUnique two_zones 7 = None"
    by (simp add: five_chairs_def two_zones_def floorInventory_findUnique_def)
  moreover have "int4 7" by (simp add: int4_def)
  ultimately show ?thesis by (rule delete_stock_absent_changes_nothing)
qed

subsection \<open>Every request keeps the primary keys in order\<close>

lemma pk_drawn:
  "primary_keys d \<Longrightarrow>
   primary_keys (d\<lparr>ZoneInventory_id_seq := ZoneInventory_id_seq d + 1\<rparr>) \<and>
   primary_keys (d\<lparr>ZoneObject_id_seq := ZoneObject_id_seq d + 1\<rparr>)"
  by (fastforce simp: primary_keys_def)

lemma pk_zoneInventory_deleteMany:
  "primary_keys d \<Longrightarrow> primary_keys (zoneInventory_deleteMany d wh)"
  by (auto simp: zoneInventory_deleteMany_def primary_keys_def Let_def distinct_map_filter)

lemma pk_zoneInventory_delete:
  "zoneInventory_delete d i = Inr d' \<Longrightarrow> primary_keys d \<Longrightarrow> primary_keys d'"
  by (auto simp: zoneInventory_delete_def pk_zoneInventory_deleteMany
      split: option.splits if_splits)

lemma pk_floorInventory_update:
  assumes "floorInventory_update d i c = Inr (row, d')" and "primary_keys d"
  shows "primary_keys d'"
proof -
  from assms(1) have d': "d' = d\<lparr>FloorInventory :=
      map (\<lambda>r. if fi_id r = i then (case c of None \<Rightarrow> r | Some c \<Rightarrow> r\<lparr>fi_count := c\<rparr>) else r)
        (FloorInventory d)\<rparr>"
    by (auto simp: floorInventory_update_def split: option.splits if_splits)
  have "map fi_id (map (\<lambda>r. if fi_id r = i
      then (case c of None \<Rightarrow> r | Some c \<Rightarrow> r\<lparr>fi_count := c\<rparr>) else r) rs) = map fi_id rs" for rs
    by (induction rs) (auto split: option.splits)
  then have ids: "map fi_id (FloorInventory d') = map fi_id (FloorInventory d)"
    by (simp add: d' del: map_map)
  show ?thesis
    using assms(2) unfolding primary_keys_def ids by (simp add: d')
qed

lemma patch_floor_inventory_state:
  "(\<exists>cc row. floorInventory_update d (int_of iv) cc =
               Inr (row, fst (patch_floor_inventory d iv cv))) \<or>
   fst (patch_floor_inventory d iv cv) = d"
proof (cases "floorInventory_update d (int_of iv)
    (if cv \<noteq> JNull then Some (int_of cv) else None)")
  case (Inl a)
  obtain e failed where a: "a = (e, failed)" by (cases a)
  from Inl a have "failed = d"
    by (auto simp: floorInventory_update_def split: if_splits option.splits)
  with Inl a show ?thesis
    by (simp add: patch_floor_inventory_def)
next
  case (Inr b)
  obtain row d' where b: "b = (row, d')" by (cases b)
  show ?thesis
  proof (cases "fst (patch_floor_inventory d iv cv) = d")
    case True
    then show ?thesis by simp
  next
    case False
    with Inr b have "fst (patch_floor_inventory d iv cv) = d'"
      by (auto simp: patch_floor_inventory_def split: if_splits)
    with Inr b show ?thesis by auto
  qed
qed

lemma delete_floor_inventory_state:
  "fst (delete_floor_inventory d iv) = d \<or>
   fst (delete_floor_inventory d iv) = delete_floor_inventory_cleanup d (int_of iv) \<or>
   floorInventory_delete (delete_floor_inventory_cleanup d (int_of iv)) (int_of iv) =
     Inr (fst (delete_floor_inventory d iv))"
proof (cases "floorInventory_delete (delete_floor_inventory_cleanup d (int_of iv)) (int_of iv)")
  case (Inl a)
  obtain e failed where a: "a = (e, failed)" by (cases a)
  from Inl a have "failed = delete_floor_inventory_cleanup d (int_of iv)"
    by (auto simp: floorInventory_delete_def split: if_splits option.splits)
  with Inl a show ?thesis
    by (simp add: delete_floor_inventory_def Let_def)
next
  case (Inr b)
  then show ?thesis
    by (simp add: delete_floor_inventory_def Let_def)
qed

lemma pk_floorInventory_delete:
  "floorInventory_delete d i = Inr d' \<Longrightarrow> primary_keys d \<Longrightarrow> primary_keys d'"
  by (auto simp: floorInventory_delete_def zoneInventory_deleteMany_def primary_keys_def
      Let_def distinct_map_filter split: option.splits if_splits)

lemma pk_zoneObject_update:
  assumes "zoneObject_update d i x y rot = Inr (row, d')" and "primary_keys d"
  shows "primary_keys d'"
proof -
  from assms(1) obtain u where d': "d' = d\<lparr>ZoneObject :=
      map (\<lambda>r. if zo_id r = i then u r else r) (ZoneObject d)\<rparr>"
    and u: "\<And>r. zo_id (u r) = zo_id r"
    by (auto simp: zoneObject_update_def split: option.splits if_splits)
  have "map zo_id (map (\<lambda>r. if zo_id r = i then u r else r) rs) = map zo_id rs" for rs
    by (induction rs) (auto simp: u)
  then have ids: "map zo_id (ZoneObject d') = map zo_id (ZoneObject d)"
    by (simp add: d' del: map_map)
  show ?thesis
    using assms(2) unfolding primary_keys_def ids by (simp add: d')
qed

lemma patch_zone_object_state:
  "(\<exists>row. zoneObject_update d (int_of iv) x y rot =
            Inr (row, fst (patch_zone_object d zv iv x y rot))) \<or>
   fst (patch_zone_object d zv iv x y rot) = d"
proof (cases "zoneObject_update d (int_of iv) x y rot")
  case (Inl a)
  obtain e failed where a: "a = (e, failed)" by (cases a)
  from Inl a have "failed = d"
    by (auto simp: zoneObject_update_def split: if_splits option.splits)
  with Inl a show ?thesis
    by (auto simp: patch_zone_object_def split: option.splits)
next
  case (Inr b)
  obtain row d' where b: "b = (row, d')" by (cases b)
  show ?thesis
  proof (cases "fst (patch_zone_object d zv iv x y rot) = d")
    case True
    then show ?thesis by simp
  next
    case False
    with Inr b have "fst (patch_zone_object d zv iv x y rot) = d'"
      by (auto simp: patch_zone_object_def split: if_splits option.splits)
    with Inr b show ?thesis by auto
  qed
qed

lemma pk_post_zone_inventory_tx:
  assumes "post_zone_inventory_tx z f q d = Inr (row, d')" and "primary_keys d"
  shows "primary_keys d'"
proof -
  from post_zone_inventory_tx_Inr [OF assms(1)]
  have "zoneInventory_create d z f q = Inr (row, d')" by blast
  from zoneInventory_create_Inr [OF this] assms(2) show ?thesis
    by (fastforce simp: primary_keys_def)
qed

lemma pk_patch_zone_inventory_tx:
  assumes "patch_zone_inventory_tx i q d = Inr (row, d')" and "primary_keys d"
  shows "primary_keys d'"
proof -
  from patch_zone_inventory_tx_Inr [OF assms(1)]
  have d': "d' = d\<lparr>ZoneInventory :=
      map (\<lambda>r. if zi_id r = i then r\<lparr>zi_quantity := q\<rparr> else r) (ZoneInventory d)\<rparr>"
    by blast
  have ids: "map zi_id (ZoneInventory d') = map zi_id (ZoneInventory d)"
    by (simp add: d' map_id_update del: map_map)
  show ?thesis
    using assms(2) unfolding primary_keys_def ids by (simp add: d')
qed

lemma pk_post_zone_object_tx:
  assumes "post_zone_object_tx z a x y rot d = Inr (obj, d')" and "primary_keys d"
  shows "primary_keys d'"
proof -
  from post_zone_object_tx_Inr [OF assms(1)]
  have obj: "zo_id obj = ZoneObject_id_seq d + 1"
    and d': "d' = d\<lparr>ZoneInventory :=
                   map (\<lambda>r. if zi_id r = a then r\<lparr>zi_quantity := zi_quantity r + 1\<rparr> else r)
                     (ZoneInventory d),
                  ZoneObject := ZoneObject d @ [obj],
                  ZoneObject_id_seq := ZoneObject_id_seq d + 1\<rparr>"
    by auto
  have ids: "map zi_id (ZoneInventory d') = map zi_id (ZoneInventory d)"
    by (simp add: d' map_id_update del: map_map)
  show ?thesis
    using assms(2) unfolding primary_keys_def ids by (fastforce simp: d' obj)
qed

lemma pk_delete_zone_object_tx:
  assumes "delete_zone_object_tx z i d = Inr (u, d')" and "primary_keys d"
  shows "primary_keys d'"
proof -
  from delete_zone_object_tx_Inr [OF assms(1)] obtain obj
    where "zoneObject_findUnique d (int_of i) = Some obj"
      and d': "d' = d\<lparr>ZoneObject := filter (\<lambda>r. zo_id r \<noteq> int_of i) (ZoneObject d),
                  ZoneInventory :=
                    map (\<lambda>r. if zi_id r = zo_zoneInventoryId obj
                              then r\<lparr>zi_quantity := zi_quantity r - 1\<rparr> else r)
                      (ZoneInventory d)\<rparr>"
    by blast
  have ids: "map zi_id (ZoneInventory d') = map zi_id (ZoneInventory d)"
    by (simp add: d' map_id_update del: map_map)
  show ?thesis
    using assms(2) unfolding primary_keys_def ids by (auto simp: d' distinct_map_filter)
qed

lemma handle_primary_keys:
  assumes pk: "primary_keys d"
  shows "primary_keys (fst (handle d r))"
proof (cases r)
  case (GetInventoryWithUsage v)
  with pk show ?thesis
    by (simp add: get_inventory_with_usage_def Let_def)
next
  case (PatchFloorInventory i c)
  with pk show ?thesis
    using patch_floor_inventory_state [of d i c] pk_floorInventory_update [of d "int_of i"]
    by auto
next
  case (DeleteFloorInventory i)
  with pk show ?thesis
    using delete_floor_inventory_state [of d i]
      pk_zoneInventory_deleteMany [of d "\<lambda>r. zi_floorInventoryId r = int_of i"]
      pk_floorInventory_delete [of "delete_floor_inventory_cleanup d (int_of i)" "int_of i"]
    by (auto simp: delete_floor_inventory_cleanup_def)
next
  case (PostZoneInventory z f q)
  with pk show ?thesis
    using post_zone_inventory_state [of z f q d] pk_drawn [of d]
      pk_post_zone_inventory_tx [of "int_of z" "int_of f" "int_of q" d]
    by auto
next
  case (PatchZoneInventory i q)
  with pk show ?thesis
    using patch_zone_inventory_state [of i q d]
      pk_patch_zone_inventory_tx [of "int_of i" "int_of q" d]
    by auto
next
  case (DeleteZoneInventory i)
  with pk show ?thesis
    using delete_zone_inventory_state [of d i] pk_zoneInventory_delete [of d "int_of i"]
    by auto
next
  case (PostZoneObject z a x y rot)
  with pk show ?thesis
    using post_zone_object_state [of z a x y rot d] pk_drawn [of d]
      pk_post_zone_object_tx [of z "int_of a" x y rot d]
    by auto
next
  case (PatchZoneObject z i x y rot)
  with pk show ?thesis
    using patch_zone_object_state [of d i x y rot z] pk_zoneObject_update [of d "int_of i" x y rot]
    by auto
next
  case (DeleteZoneObject z i)
  with pk show ?thesis
    using delete_zone_object_state [of z i d] pk_delete_zone_object_tx [of z i d]
    by auto
qed

text \<open>
  The state after any list of requests, served one at a time, has its primary keys in
  order when the state before had: ids stay unique in each table and within what the
  sequences have given out.
\<close>

theorem primary_keys_kept:
  "primary_keys d \<Longrightarrow> primary_keys (serve d rs)"
  by (induction rs arbitrary: d) (simp_all add: handle_primary_keys)

theorem primary_keys_kept_witness:
  "primary_keys five_chairs \<and> primary_keys (serve five_chairs four_placed)"
proof -
  have "primary_keys five_chairs"
    by (simp add: five_chairs_def place_one_def four_placed_def primary_keys_def)
  then show ?thesis
    using primary_keys_kept [of five_chairs four_placed] by simp
qed

subsection \<open>Only the removal of an object can make a quantity negative\<close>

lemma nn_deleteMany:
  "quantities_nonneg d \<Longrightarrow> quantities_nonneg (zoneInventory_deleteMany d wh)"
  by (auto simp: zoneInventory_deleteMany_def quantities_nonneg_def Let_def)

text \<open>
  Every request but the removal of an object keeps all quantities at or above zero.
\<close>

theorem only_remove_goes_below_zero:
  assumes "quantities_nonneg d" and "\<not> remove_request r"
  shows "quantities_nonneg (fst (handle d r))"
proof (cases r)
  case (GetInventoryWithUsage v)
  with assms show ?thesis
    by (simp add: get_inventory_with_usage_def Let_def)
next
  case (PatchFloorInventory i c)
  with assms show ?thesis
    by (auto simp: patch_floor_inventory_def floorInventory_update_def quantities_nonneg_def
        split: sum.splits if_splits option.splits)
next
  case (DeleteFloorInventory i)
  with assms show ?thesis
    by (auto simp: delete_floor_inventory_def delete_floor_inventory_cleanup_def Let_def
        floorInventory_delete_def zoneInventory_deleteMany_def quantities_nonneg_def
        split: sum.splits if_splits option.splits)
next
  case (PostZoneInventory z f q)
  have "quantities_nonneg d'"
    if "post_zone_inventory_tx (int_of z) (int_of f) (int_of q) d = Inr (row, d')"
      and "0 \<le> int_of q" for row d'
  proof -
    from post_zone_inventory_tx_Inr [OF that(1)]
    have "zoneInventory_create d (int_of z) (int_of f) (int_of q) = Inr (row, d')" by blast
    from zoneInventory_create_Inr [OF this] assms(1) that(2) show ?thesis
      by (auto simp: quantities_nonneg_def)
  qed
  with PostZoneInventory assms(1) post_zone_inventory_state [of z f q d] show ?thesis
    by (auto simp: quantities_nonneg_def)
next
  case (PatchZoneInventory i q)
  have "quantities_nonneg d'"
    if "patch_zone_inventory_tx (int_of i) (int_of q) d = Inr (row, d')"
      and "0 \<le> int_of q" for row d'
    using patch_zone_inventory_tx_Inr [OF that(1)] assms(1) that(2)
    by (auto simp: quantities_nonneg_def)
  with PatchZoneInventory assms(1) patch_zone_inventory_state [of i q d] show ?thesis
    by auto
next
  case (DeleteZoneInventory i)
  with assms show ?thesis
    by (auto simp: delete_zone_inventory_def zoneInventory_delete_def nn_deleteMany
        split: sum.splits if_splits option.splits)
next
  case (PostZoneObject z a x y rot)
  have "quantities_nonneg d'"
    if "post_zone_object_tx z (int_of a) x y rot d = Inr (obj, d')" for obj d'
    using post_zone_object_tx_Inr [OF that] assms(1)
    by (auto simp: quantities_nonneg_def)
  with PostZoneObject assms(1) post_zone_object_state [of z a x y rot d] show ?thesis
    by (auto simp: quantities_nonneg_def)
next
  case (PatchZoneObject z i x y rot)
  with assms show ?thesis
    by (auto simp: patch_zone_object_def zoneObject_update_def quantities_nonneg_def
        split: sum.splits if_splits option.splits)
next
  case (DeleteZoneObject z i)
  with assms show ?thesis by simp
qed

theorem only_remove_goes_below_zero_witness:
  "quantities_nonneg two_zones \<and> quantities_nonneg (fst (handle two_zones place_one))"
proof -
  have "quantities_nonneg two_zones"
    by (simp add: five_chairs_def two_zones_def place_one_def quantities_nonneg_def)
  moreover have "\<not> remove_request place_one"
    by (simp add: place_one_def)
  ultimately show ?thesis
    using only_remove_goes_below_zero [of two_zones place_one] by simp
qed

subsection \<open>Placing an object can overcommit the floor count\<close>

text \<open>
  The bound of the allocation ledger does not extend to the placing of objects: with all
  five chairs attached to zone 1, placing one object succeeds and leaves six attached.
\<close>

theorem place_can_overcommit:
  "map status
     (answers five_chairs [PostZoneInventory (JInt 1) (JInt 1) (JInt 5), place_one])
     = [201, 201] \<and>
   used (serve five_chairs [PostZoneInventory (JInt 1) (JInt 1) (JInt 5), place_one]) 1 = 6 \<and>
   map fi_count
     (FloorInventory
        (serve five_chairs [PostZoneInventory (JInt 1) (JInt 1) (JInt 5), place_one]))
     = [5]"
  by (simp add: five_chairs_def place_one_def prisma_defs route_defs Let_def used_def)

end
